theory Spec2Isabelle
  imports Main "HOL-Library.AList" "HOL-Library.Sublist"
begin

section \<open>Values, exceptions and the outside world\<close>

text \<open>
  The service in \<^verbatim>\<open>src/domain/services/simulation_service.py\<close> moves Python values
  between an HTTP provider, a document store and its callers. A value is what JSON and
  BSON can carry here: \<^verbatim>\<open>None\<close>, booleans, integers, strings, lists, dictionaries
  (in insertion order), a \<^verbatim>\<open>datetime\<close> (a clock reading) and an \<^verbatim>\<open>ObjectId\<close>
  (its twelve bytes). Floating-point numbers are left out: nothing in the service
  computes with one.
\<close>

datatype val =
    VNone
  | VBool bool
  | VInt int
  | VStr string
  | VList "val list"
  | VDict "(string \<times> val) list"
  | VDatetime nat
  | VObjectId "nat list"

type_synonym document = "(string \<times> val) list"

text \<open>
  Exceptions. \<open>HTTPException s d\<close> is FastAPI's exception with \<^verbatim>\<open>status_code\<close>
  \<open>s\<close> and the text of its \<^verbatim>\<open>detail\<close>; the others are what the libraries raise:
  \<open>InvalidId\<close> by \<^verbatim>\<open>bson.ObjectId\<close> (with the rejected string), \<open>KeyError\<close> (with
  the \<^verbatim>\<open>repr\<close> of the key), \<open>TypeError\<close> and \<open>IndexError\<close> by subscripting,
  \<open>OtherError m\<close> any other exception (a transport failure, a JSON decoding error, a
  store failure) whose \<^verbatim>\<open>str\<close> is \<open>m\<close>.
\<close>

datatype exn =
    HTTPException nat string
  | InvalidId string
  | KeyError string
  | TypeError string
  | IndexError string
  | OtherError string

definition digit_char :: "nat \<Rightarrow> char" where
  "digit_char d = char_of (48 + d)"

function show_nat :: "nat \<Rightarrow> string" where
  "show_nat n = (if n < 10 then [digit_char n] else show_nat (n div 10) @ [digit_char (n mod 10)])"
  by pat_completeness auto
termination
  by (relation "measure id") auto

declare show_nat.simps [simp del]

text \<open>
  \<^verbatim>\<open>repr(s)\<close> of a string, as CPython writes it; a character is a code point below
  256. The quote is the single quote, unless the string has a single quote and no double
  quote. The quote in use and the backslash are escaped with a backslash; tab, newline
  and carriage return are written \<^verbatim>\<open>\t\<close>, \<^verbatim>\<open>\n\<close>, \<^verbatim>\<open>\r\<close>; every other
  character that is not printable (below 32, 127 to 160, and 173) is written
  \<^verbatim>\<open>\xhh\<close> with two lower-case hex digits; the rest are copied.
\<close>

definition hex_digit :: "nat \<Rightarrow> char" where
  "hex_digit d = (if d < 10 then char_of (48 + d) else char_of (87 + d))"

definition repr_char :: "char \<Rightarrow> char \<Rightarrow> string" where
  "repr_char quote c =
     (let n = of_char c :: nat in
      if c = quote \<or> n = 92 then [CHR 0x5C, c]
      else if n = 9 then [CHR 0x5C, CHR ''t'']
      else if n = 10 then [CHR 0x5C, CHR ''n'']
      else if n = 13 then [CHR 0x5C, CHR ''r'']
      else if n < 32 \<or> n = 127 then [CHR 0x5C, CHR ''x'', hex_digit (n div 16), hex_digit (n mod 16)]
      else if n < 127 then [c]
      else if n \<le> 160 \<or> n = 173
        then [CHR 0x5C, CHR ''x'', hex_digit (n div 16), hex_digit (n mod 16)]
      else [c])"

definition py_repr :: "string \<Rightarrow> string" where
  "py_repr s =
     (let quote = (if CHR 0x27 \<in> set s \<and> CHR 0x22 \<notin> set s then CHR 0x22 else CHR 0x27)
      in [quote] @ concat (map (repr_char quote) s) @ [quote])"

text \<open>
  \<^verbatim>\<open>str(e)\<close>. Starlette's \<^verbatim>\<open>HTTPException.__str__\<close> returns
  \<^verbatim>\<open>f"{self.status_code}: {self.detail}"\<close>; \<^verbatim>\<open>str(KeyError(k))\<close> is the
  \<^verbatim>\<open>repr\<close> of the key; \<^verbatim>\<open>InvalidId\<close> carries bson's message, which formats
  the rejected string with \<^verbatim>\<open>%r\<close>.
\<close>

fun str_exn :: "exn \<Rightarrow> string" where
  "str_exn (HTTPException s d) = show_nat s @ '': '' @ d"
| "str_exn (InvalidId s) =
     py_repr s @
     '' is not a valid ObjectId, it must be a 12-byte input or a 24-character hex string''"
| "str_exn (KeyError k) = k"
| "str_exn (TypeError m) = m"
| "str_exn (IndexError m) = m"
| "str_exn (OtherError m) = m"

fun is_HTTPException :: "exn \<Rightarrow> bool" where
  "is_HTTPException (HTTPException s d) = True"
| "is_HTTPException e = False"

subsection \<open>Python's truth test and subscripts\<close>

fun truthy :: "val \<Rightarrow> bool" where
  "truthy VNone = False"
| "truthy (VBool b) = b"
| "truthy (VInt i) = (i \<noteq> 0)"
| "truthy (VStr s) = (s \<noteq> [])"
| "truthy (VList xs) = (xs \<noteq> [])"
| "truthy (VDict kvs) = (kvs \<noteq> [])"
| "truthy (VDatetime t) = True"
| "truthy (VObjectId b) = True"

text \<open>\<^verbatim>\<open>v[k]\<close> for a string key \<open>k\<close>.\<close>

fun getitem :: "val \<Rightarrow> string \<Rightarrow> exn + val" where
  "getitem (VDict kvs) k =
     (case map_of kvs k of Some v \<Rightarrow> Inr v | None \<Rightarrow> Inl (KeyError (py_repr k)))"
| "getitem (VList xs) k = Inl (TypeError ''list indices must be integers or slices, not str'')"
| "getitem (VStr s) k = Inl (TypeError (''string indices must be integers, not 'str'' @ [CHR 0x27]))"
| "getitem VNone k = Inl (TypeError '''NoneType' object is not subscriptable'')"
| "getitem (VBool b) k = Inl (TypeError '''bool' object is not subscriptable'')"
| "getitem (VInt i) k = Inl (TypeError '''int' object is not subscriptable'')"
| "getitem (VDatetime t) k = Inl (TypeError '''datetime.datetime' object is not subscriptable'')"
| "getitem (VObjectId b) k = Inl (TypeError '''ObjectId' object is not subscriptable'')"

text \<open>\<^verbatim>\<open>v[0]\<close>.\<close>

fun getitem0 :: "val \<Rightarrow> exn + val" where
  "getitem0 (VList xs) = (case xs of [] \<Rightarrow> Inl (IndexError ''list index out of range'') | x # _ \<Rightarrow> Inr x)"
| "getitem0 (VStr s) = (case s of [] \<Rightarrow> Inl (IndexError ''string index out of range'') | c # _ \<Rightarrow> Inr (VStr [c]))"
| "getitem0 (VDict kvs) = Inl (KeyError ''0'')"
| "getitem0 VNone = Inl (TypeError '''NoneType' object is not subscriptable'')"
| "getitem0 (VBool b) = Inl (TypeError '''bool' object is not subscriptable'')"
| "getitem0 (VInt i) = Inl (TypeError '''int' object is not subscriptable'')"
| "getitem0 (VDatetime t) = Inl (TypeError '''datetime.datetime' object is not subscriptable'')"
| "getitem0 (VObjectId b) = Inl (TypeError '''ObjectId' object is not subscriptable'')"

text \<open>\<^verbatim>\<open>sep.join(xs)\<close>.\<close>

fun join :: "string \<Rightarrow> string list \<Rightarrow> string" where
  "join sep [] = []"
| "join sep [x] = x"
| "join sep (x # y # ys) = x @ sep @ join sep (y # ys)"

subsection \<open>ObjectId\<close>

text \<open>
  \<^verbatim>\<open>ObjectId(s)\<close> for a string, as \<^verbatim>\<open>bson\<close> validates it: a string of 24
  characters that \<^verbatim>\<open>bytes.fromhex\<close> accepts gives its bytes, anything else raises
  \<^verbatim>\<open>InvalidId\<close>. \<^verbatim>\<open>bytes.fromhex\<close> reads two hex digits per byte and skips ASCII
  whitespace in front of a byte. \<^verbatim>\<open>str(oid)\<close> is the lower-case hex form.
\<close>

definition hex_val :: "char \<Rightarrow> nat option" where
  "hex_val c =
     (let n = of_char c :: nat in
      if 48 \<le> n \<and> n \<le> 57 then Some (n - 48)
      else if 97 \<le> n \<and> n \<le> 102 then Some (n - 87)
      else if 65 \<le> n \<and> n \<le> 70 then Some (n - 55)
      else None)"

definition is_space :: "char \<Rightarrow> bool" where
  "is_space c = (let n = of_char c :: nat in n = 32 \<or> (9 \<le> n \<and> n \<le> 13))"

fun fromhex :: "string \<Rightarrow> nat list option" where
  "fromhex [] = Some []"
| "fromhex (c # cs) =
     (if is_space c then fromhex cs
      else (case hex_val c of
              None \<Rightarrow> None
            | Some h \<Rightarrow>
                (case cs of
                   [] \<Rightarrow> None
                 | d # ds \<Rightarrow>
                     (case hex_val d of
                        None \<Rightarrow> None
                      | Some l \<Rightarrow> map_option ((#) (16 * h + l)) (fromhex ds)))))"

definition ObjectId :: "string \<Rightarrow> exn + nat list" where
  "ObjectId s =
     (if length s = 24 then
        (case fromhex s of Some bs \<Rightarrow> Inr bs | None \<Rightarrow> Inl (InvalidId s))
      else Inl (InvalidId s))"

definition str_ObjectId :: "nat list \<Rightarrow> string" where
  "str_ObjectId bs = concat (map (\<lambda>b. [hex_digit (b div 16), hex_digit (b mod 16)]) bs)"

subsection \<open>The outside world\<close>

text \<open>
  An HTTP request as \<^verbatim>\<open>session.post(url, headers=..., json=...)\<close> sends it, and the
  response as the service reads it: its \<^verbatim>\<open>status\<close>, its printed form (used when the
  response object itself becomes an exception's detail) and what
  \<^verbatim>\<open>await response.json()\<close> gives, a value or an exception.
\<close>

record http_request =
  url :: string
  headers :: "(string \<times> string) list"
  json_body :: val

record http_response =
  status :: nat
  printed :: string
  json :: "exn + val"

text \<open>
  What the service does to the world, in order: provider calls, store calls, and the
  one \<^verbatim>\<open>print\<close>. A store call is recorded when it is issued, whether or not it
  succeeds.
\<close>

datatype event =
    HttpPost http_request
  | FindOne "nat list"
  | InsertOne document
  | UpdateOne "nat list" document
  | Print val

fun is_provider_call :: "event \<Rightarrow> bool" where
  "is_provider_call (HttpPost r) = True"
| "is_provider_call e = False"

fun is_store_write :: "event \<Rightarrow> bool" where
  "is_store_write (InsertOne d) = True"
| "is_store_write (UpdateOne i d) = True"
| "is_store_write e = False"

text \<open>
  The environment is everything the service does not decide: the two API keys of
  \<^verbatim>\<open>config\<close>, the providers' answer to each request (an exception when the transport
  fails), the readings of the clock, the identifier the store driver generates for an
  insert, and whether the store call issued after \<open>n\<close> events fails (with which message).
\<close>

record env =
  OPENAI_API_KEY :: string
  RETELL_API_KEY :: string
  post :: "http_request \<Rightarrow> exn + http_response"
  clock :: "nat \<Rightarrow> nat"
  new_id :: "nat \<Rightarrow> nat list"
  store_fault :: "nat \<Rightarrow> string option"

text \<open>
  The state: the \<^verbatim>\<open>simulations\<close> collection (the fields of each document other than
  \<^verbatim>\<open>_id\<close>, under its \<^verbatim>\<open>_id\<close>), the events so far, and how many times the clock
  has been read.
\<close>

record world =
  simulations :: "nat list \<rightharpoonup> document"
  trace :: "event list"
  clock_reads :: nat

type_synonym 'a io = "world \<Rightarrow> (exn + 'a) \<times> world"

definition returnE :: "'a \<Rightarrow> 'a io" where
  "returnE x = (\<lambda>w. (Inr x, w))"

definition raise :: "exn \<Rightarrow> 'a io" where
  "raise e = (\<lambda>w. (Inl e, w))"

definition lift :: "exn + 'a \<Rightarrow> 'a io" where
  "lift r = (\<lambda>w. (r, w))"

definition bindE :: "'a io \<Rightarrow> ('a \<Rightarrow> 'b io) \<Rightarrow> 'b io" where
  "bindE m f = (\<lambda>w. case m w of (Inl e, w') \<Rightarrow> (Inl e, w') | (Inr x, w') \<Rightarrow> f x w')"

text \<open>\<^verbatim>\<open>try: m  except Exception as e: h(e)\<close>\<close>

definition try_except :: "'a io \<Rightarrow> (exn \<Rightarrow> 'a io) \<Rightarrow> 'a io" where
  "try_except m h = (\<lambda>w. case m w of (Inl e, w') \<Rightarrow> h e w' | (Inr x, w') \<Rightarrow> (Inr x, w'))"

definition log :: "event \<Rightarrow> unit io" where
  "log ev = (\<lambda>w. (Inr (), w\<lparr>trace := trace w @ [ev]\<rparr>))"

text \<open>\<^verbatim>\<open>datetime.utcnow()\<close>\<close>

definition utcnow :: "env \<Rightarrow> val io" where
  "utcnow E = (\<lambda>w. (Inr (VDatetime (clock E (clock_reads w))), w\<lparr>clock_reads := Suc (clock_reads w)\<rparr>))"

text \<open>\<^verbatim>\<open>async with session.post(url, headers=headers, json=data) as response\<close>\<close>

definition session_post :: "env \<Rightarrow> http_request \<Rightarrow> http_response io" where
  "session_post E r = bindE (log (HttpPost r)) (\<lambda>_. lift (post E r))"


subsection \<open>The document store\<close>

text \<open>
  The three calls the service makes on \<^verbatim>\<open>self.db.simulations\<close>. Each is recorded,
  then fails if the environment says so. \<^verbatim>\<open>find_one\<close> returns the document with its
  \<^verbatim>\<open>_id\<close>, or \<^verbatim>\<open>None\<close>. \<^verbatim>\<open>insert_one\<close> stores the document under the
  identifier the driver generates (a duplicate key is an error) and returns
  \<^verbatim>\<open>inserted_id\<close>. \<^verbatim>\<open>update_one\<close> with \<^verbatim>\<open>{"$set": update_doc}\<close> assigns each
  field of the update set and returns \<^verbatim>\<open>modified_count\<close>: 1 when the matched
  document changed, 0 when nothing matched or nothing changed.
\<close>

definition store_call :: "env \<Rightarrow> event \<Rightarrow> unit io" where
  "store_call E ev =
     (\<lambda>w. case store_fault E (length (trace w)) of
             Some m \<Rightarrow> (Inl (OtherError m), w\<lparr>trace := trace w @ [ev]\<rparr>)
           | None \<Rightarrow> (Inr (), w\<lparr>trace := trace w @ [ev]\<rparr>))"

definition find_one :: "env \<Rightarrow> nat list \<Rightarrow> document option io" where
  "find_one E oid =
     bindE (store_call E (FindOne oid))
       (\<lambda>_ w. (Inr (map_option (\<lambda>d. (''_id'', VObjectId oid) # d) (simulations w oid)), w))"

definition insert_one :: "env \<Rightarrow> document \<Rightarrow> nat list io" where
  "insert_one E doc =
     bindE (store_call E (InsertOne doc))
       (\<lambda>_ w. let oid = new_id E (length (trace w)) in
               if simulations w oid \<noteq> None
               then (Inl (OtherError ''E11000 duplicate key error''), w)
               else (Inr oid, w\<lparr>simulations := (simulations w)(oid \<mapsto> doc)\<rparr>))"

definition set_fields :: "document \<Rightarrow> document \<Rightarrow> document" where
  "set_fields upd d = fold (\<lambda>(k, v). AList.update k v) upd d"

definition update_one :: "env \<Rightarrow> nat list \<Rightarrow> document \<Rightarrow> nat io" where
  "update_one E oid upd =
     bindE (store_call E (UpdateOne oid upd))
       (\<lambda>_ w. case simulations w oid of
                 None \<Rightarrow> (Inr 0, w)
               | Some d \<Rightarrow>
                   (let d' = set_fields upd d in
                    (Inr (if d' = d then 0 else 1),
                     w\<lparr>simulations := (simulations w)(oid \<mapsto> d')\<rparr>)))"

section \<open>Requests\<close>

text \<open>
  The request classes of \<^verbatim>\<open>api.schemas.requests\<close>, with the attributes the service
  reads. An attribute the service only copies is a value (\<open>VNone\<close> when the request
  leaves it out); the prompt and the voice identifier are optional strings; a script
  line has a role, a sentence and the rest of what \<^verbatim>\<open>s.dict()\<close> returns. The
  attributes of the update request carry the prefix \<open>u_\<close> and those of the creation
  request the prefix \<open>c_\<close>.
\<close>

record script_line =
  role :: string
  script_sentence :: string
  other_fields :: document

definition dict :: "script_line \<Rightarrow> val" where
  "dict s = VDict ([(''role'', VStr (role s)), (''script_sentence'', VStr (script_sentence s))]
                   @ other_fields s)"

record CreateSimulationRequest =
  c_name :: val
  c_division_id :: val
  c_department_id :: val
  c_type :: val
  c_script :: "script_line list"
  c_user_id :: val
  c_tags :: val

record lvl1_settings =
  is_enabled :: val
  enable_practice :: val
  hide_agent_script :: val
  hide_customer_script :: val
  hide_keyword_scores :: val
  hide_sentiment_scores :: val
  hide_highlights :: val
  hide_coaching_tips :: val
  enable_post_simulation_survey :: val
  ai_powered_pauses_and_feedback :: val

record lvl_settings =
  lvl_is_enabled :: val

record scoring_metrics =
  metrics_is_enabled :: val
  keyword_score :: val
  click_score :: val

record practice_settings =
  is_unlimited :: val
  pre_requisite_limit :: val

record UpdateSimulationRequest =
  u_user_id :: val
  u_name :: val
  u_division_id :: val
  u_department_id :: val
  u_type :: val
  u_tags :: val
  u_status :: val
  u_estimated_time_to_attempt_in_mins :: val
  u_key_objectives :: val
  u_overview_video :: val
  u_quick_tips :: val
  u_voice_id :: "string option"
  u_language :: val
  u_mood :: val
  u_voice_speed :: val
  u_prompt :: "string option"
  u_simulation_completion_repetition :: val
  u_simulation_max_repetition :: val
  u_final_simulation_score_criteria :: val
  u_is_locked :: val
  u_version :: val
  u_assistant_id :: val
  u_slides :: val
  u_script :: "script_line list option"
  u_lvl1 :: "lvl1_settings option"
  u_lvl2 :: "lvl_settings option"
  u_lvl3 :: "lvl_settings option"
  u_simulation_scoring_metrics :: "scoring_metrics option"
  u_sim_practice :: "practice_settings option"

definition opt_str :: "string option \<Rightarrow> val" where
  "opt_str x = (case x of None \<Rightarrow> VNone | Some s \<Rightarrow> VStr s)"

text \<open>\<^verbatim>\<open>getattr(request, field_name)\<close> for the names of the mapping table.\<close>

definition getattr :: "UpdateSimulationRequest \<Rightarrow> string \<Rightarrow> val" where
  "getattr request field_name =
    (if field_name = ''name'' then u_name request
     else if field_name = ''division_id'' then u_division_id request
     else if field_name = ''department_id'' then u_department_id request
     else if field_name = ''type'' then u_type request
     else if field_name = ''tags'' then u_tags request
     else if field_name = ''status'' then u_status request
     else if field_name = ''estimated_time_to_attempt_in_mins''
       then u_estimated_time_to_attempt_in_mins request
     else if field_name = ''key_objectives'' then u_key_objectives request
     else if field_name = ''overview_video'' then u_overview_video request
     else if field_name = ''quick_tips'' then u_quick_tips request
     else if field_name = ''voice_id'' then opt_str (u_voice_id request)
     else if field_name = ''language'' then u_language request
     else if field_name = ''mood'' then u_mood request
     else if field_name = ''voice_speed'' then u_voice_speed request
     else if field_name = ''prompt'' then opt_str (u_prompt request)
     else if field_name = ''simulation_completion_repetition''
       then u_simulation_completion_repetition request
     else if field_name = ''simulation_max_repetition'' then u_simulation_max_repetition request
     else if field_name = ''final_simulation_score_criteria''
       then u_final_simulation_score_criteria request
     else if field_name = ''is_locked'' then u_is_locked request
     else if field_name = ''version'' then u_version request
     else if field_name = ''assistant_id'' then u_assistant_id request
     else if field_name = ''slides'' then u_slides request
     else VNone)"


section \<open>The provider clients\<close>

definition bearer_headers :: "string \<Rightarrow> (string \<times> string) list" where
  "bearer_headers key =
     [(''Authorization'', ''Bearer '' @ key), (''Content-Type'', ''application/json'')]"

definition llm_request :: "env \<Rightarrow> val \<Rightarrow> http_request" where
  "llm_request E prompt =
     \<lparr>url = ''https://api.retellai.com/create-retell-llm'',
      headers = bearer_headers (RETELL_API_KEY E),
      json_body = VDict [(''general_prompt'', prompt)]\<rparr>"

definition create_retell_llm :: "env \<Rightarrow> val \<Rightarrow> val io" where
  "create_retell_llm E prompt =
     try_except
       (bindE (session_post E (llm_request E prompt)) (\<lambda>response.
          if status response \<noteq> 201
          then raise (HTTPException (status response) ''Failed to create Retell LLM'')
          else lift (json response)))
       (\<lambda>e. raise (HTTPException 500 (''Error creating Retell LLM: '' @ str_exn e)))"

definition agent_request :: "env \<Rightarrow> val \<Rightarrow> val \<Rightarrow> http_request" where
  "agent_request E llm_id voice_id =
     \<lparr>url = ''https://api.retellai.com/create-agent'',
      headers = bearer_headers (RETELL_API_KEY E),
      json_body = VDict [(''response_engine'',
                            VDict [(''llm_id'', llm_id), (''type'', VStr ''retell-llm'')]),
                         (''voice_id'', voice_id)]\<rparr>"

definition create_retell_agent :: "env \<Rightarrow> val \<Rightarrow> val \<Rightarrow> val io" where
  "create_retell_agent E llm_id voice_id =
     try_except
       (bindE (session_post E (agent_request E llm_id voice_id)) (\<lambda>response.
          if status response \<noteq> 201
          then raise (HTTPException (status response) ''Failed to create Retell Agent'')
          else lift (json response)))
       (\<lambda>e. raise (HTTPException 500 (''Error creating Retell Agent: '' @ str_exn e)))"

definition system_instruction :: string where
  "system_instruction =
     ''Create a detailed prompt for a customer service simulation based on the following conversation. The prompt should help generate realistic customer responses that match the conversation flow and context. Consider the sequence of interactions and maintain consistency with the original conversation.''"

definition conversation_of :: "script_line list \<Rightarrow> string" where
  "conversation_of script =
     join [CHR 0x0A] (map (\<lambda>s. role s @ '': '' @ script_sentence s) script)"

definition prompt_request :: "env \<Rightarrow> string \<Rightarrow> http_request" where
  "prompt_request E conversation =
     \<lparr>url = ''https://api.openai.com/v1/chat/completions'',
      headers = bearer_headers (OPENAI_API_KEY E),
      json_body = VDict [(''model'', VStr ''gpt-4o''),
                         (''messages'',
                            VList [VDict [(''role'', VStr ''system''),
                                          (''content'', VStr system_instruction)],
                                   VDict [(''role'', VStr ''user''),
                                          (''content'', VStr conversation)]])]\<rparr>"

definition generate_simulation_prompt :: "env \<Rightarrow> script_line list \<Rightarrow> val io" where
  "generate_simulation_prompt E script =
     try_except
       (let conversation = conversation_of script in
        bindE (session_post E (prompt_request E conversation)) (\<lambda>response.
          if status response \<noteq> 200
          then raise (HTTPException (status response) (printed response))
          else bindE (lift (json response)) (\<lambda>result.
               bindE (lift (getitem result ''choices'')) (\<lambda>choices.
               bindE (lift (getitem0 choices)) (\<lambda>choice.
               bindE (lift (getitem choice ''message'')) (\<lambda>message.
               lift (getitem message ''content'')))))))
       (\<lambda>e. raise (HTTPException 500 (''Error generating simulation prompt: '' @ str_exn e)))"

definition web_call_request :: "env \<Rightarrow> val \<Rightarrow> http_request" where
  "web_call_request E agent_id =
     \<lparr>url = ''https://api.retellai.com/v2/create-web-call'',
      headers = bearer_headers (RETELL_API_KEY E),
      json_body = VDict [(''agent_id'', agent_id)]\<rparr>"

text \<open>
  The web-call client prints \<^verbatim>\<open>await response.json()\<close> before it looks at the
  status, so a body that does not decode raises there.
\<close>

definition create_web_call :: "env \<Rightarrow> val \<Rightarrow> val io" where
  "create_web_call E agent_id =
     try_except
       (bindE (session_post E (web_call_request E agent_id)) (\<lambda>response.
        bindE (lift (json response)) (\<lambda>body.
        bindE (log (Print body)) (\<lambda>_.
          if status response \<noteq> 201
          then raise (HTTPException (status response) ''Failed to create web call'')
          else lift (json response)))))
       (\<lambda>e. raise (HTTPException 500 (''Error creating web call: '' @ str_exn e)))"

section \<open>The service\<close>

subsection \<open>create_simulation\<close>

definition simulation_doc :: "CreateSimulationRequest \<Rightarrow> val \<Rightarrow> val \<Rightarrow> val \<Rightarrow> document" where
  "simulation_doc request prompt t1 t2 =
     [(''name'', c_name request),
      (''divisionId'', c_division_id request),
      (''departmentId'', c_department_id request),
      (''type'', c_type request),
      (''script'', VList (map dict (c_script request))),
      (''lastModifiedBy'', c_user_id request),
      (''lastModified'', t1),
      (''createdBy'', c_user_id request),
      (''createdOn'', t2),
      (''status'', VStr ''draft''),
      (''version'', VInt 1),
      (''prompt'', prompt),
      (''tags'', c_tags request)]"

definition create_simulation :: "env \<Rightarrow> CreateSimulationRequest \<Rightarrow> document io" where
  "create_simulation E request =
     try_except
       (bindE (generate_simulation_prompt E (c_script request)) (\<lambda>prompt.
        bindE (utcnow E) (\<lambda>t1.
        bindE (utcnow E) (\<lambda>t2.
        bindE (insert_one E (simulation_doc request prompt t1 t2)) (\<lambda>inserted_id.
        returnE [(''id'', VStr (str_ObjectId inserted_id)),
                 (''status'', VStr ''success''),
                 (''prompt'', prompt)])))))
       (\<lambda>e. raise (HTTPException 500 (''Error creating simulation: '' @ str_exn e)))"

subsection \<open>update_simulation\<close>

text \<open>
  \<^verbatim>\<open>add_if_exists\<close> writes \<^verbatim>\<open>update_doc[camel_case_name or field_name]\<close> when the
  attribute is not \<^verbatim>\<open>None\<close>; an assignment to a dictionary replaces the value of a
  key that is there and appends a new key otherwise.
\<close>

definition add_if_exists ::
  "UpdateSimulationRequest \<Rightarrow> string \<Rightarrow> string option \<Rightarrow> document \<Rightarrow> document" where
  "add_if_exists request field_name camel_case_name update_doc =
     (let v = getattr request field_name in
      if v \<noteq> VNone
      then AList.update
             (case camel_case_name of
                None \<Rightarrow> field_name
              | Some c \<Rightarrow> if c \<noteq> [] then c else field_name) v update_doc
      else update_doc)"

definition field_mappings :: "(string \<times> string) list" where
  "field_mappings =
     [(''name'', ''name''),
      (''division_id'', ''divisionId''),
      (''department_id'', ''departmentId''),
      (''type'', ''type''),
      (''tags'', ''tags''),
      (''status'', ''status''),
      (''estimated_time_to_attempt_in_mins'', ''estimatedTimeToAttemptInMins''),
      (''key_objectives'', ''keyObjectives''),
      (''overview_video'', ''overviewVideo''),
      (''quick_tips'', ''quickTips''),
      (''voice_id'', ''voiceId''),
      (''language'', ''language''),
      (''mood'', ''mood''),
      (''voice_speed'', ''voice_speed''),
      (''prompt'', ''prompt''),
      (''simulation_completion_repetition'', ''simulationCompletionRepetition''),
      (''simulation_max_repetition'', ''simulationMaxRepetition''),
      (''final_simulation_score_criteria'', ''finalSimulationScoreCriteria''),
      (''is_locked'', ''isLocked''),
      (''version'', ''version''),
      (''assistant_id'', ''assistantId''),
      (''slides'', ''slides'')]"

definition lvl1_doc :: "lvl1_settings \<Rightarrow> val" where
  "lvl1_doc l =
     VDict [(''isEnabled'', is_enabled l),
            (''enablePractice'', enable_practice l),
            (''hideAgentScript'', hide_agent_script l),
            (''hideCustomerScript'', hide_customer_script l),
            (''hideKeywordScores'', hide_keyword_scores l),
            (''hideSentimentScores'', hide_sentiment_scores l),
            (''hideHighlights'', hide_highlights l),
            (''hideCoachingTips'', hide_coaching_tips l),
            (''enablePostSimulationSurvey'', enable_post_simulation_survey l),
            (''aiPoweredPausesAndFeedback'', ai_powered_pauses_and_feedback l)]"

definition set_if_present :: "'a option \<Rightarrow> string \<Rightarrow> ('a \<Rightarrow> val) \<Rightarrow> document \<Rightarrow> document" where
  "set_if_present x key f update_doc =
     (case x of None \<Rightarrow> update_doc | Some y \<Rightarrow> AList.update key (f y) update_doc)"

text \<open>The update set before provisioning: the mapped fields, then the special objects.\<close>

definition build_update_doc :: "UpdateSimulationRequest \<Rightarrow> document" where
  "build_update_doc request =
     (let update_doc = fold (\<lambda>(field, doc_field). add_if_exists request field (Some doc_field))
                            field_mappings [];
          update_doc = set_if_present (u_script request) ''script''
                         (\<lambda>script. VList (map dict script)) update_doc;
          update_doc = set_if_present (u_lvl1 request) ''lvl1'' lvl1_doc update_doc;
          update_doc = set_if_present (u_lvl2 request) ''lvl2''
                         (\<lambda>l. VDict [(''isEnabled'', lvl_is_enabled l)]) update_doc;
          update_doc = set_if_present (u_lvl3 request) ''lvl3''
                         (\<lambda>l. VDict [(''isEnabled'', lvl_is_enabled l)]) update_doc;
          update_doc = set_if_present (u_simulation_scoring_metrics request)
                         ''simulationScoringMetrics''
                         (\<lambda>m. VDict [(''isEnabled'', metrics_is_enabled m),
                                     (''keywordScore'', keyword_score m),
                                     (''clickScore'', click_score m)]) update_doc;
          update_doc = set_if_present (u_sim_practice request) ''simPractice''
                         (\<lambda>p. VDict [(''isUnlimited'', is_unlimited p),
                                     (''preRequisiteLimit'', pre_requisite_limit p)]) update_doc
      in update_doc)"

text \<open>\<^verbatim>\<open>request.voice_id or "11labs-Adrian"\<close>: the default also replaces an empty string.\<close>

definition voice_or_default :: "string option \<Rightarrow> string" where
  "voice_or_default v =
     (case v of None \<Rightarrow> ''11labs-Adrian'' | Some s \<Rightarrow> if s \<noteq> [] then s else ''11labs-Adrian'')"

text \<open>Lines 161 to 171: the provisioning, when the request has a prompt.\<close>

definition provision :: "env \<Rightarrow> UpdateSimulationRequest \<Rightarrow> document \<Rightarrow> document io" where
  "provision E request update_doc =
     (case u_prompt request of
        None \<Rightarrow> returnE update_doc
      | Some p \<Rightarrow>
          bindE (create_retell_llm E (VStr p)) (\<lambda>llm_response.
          bindE (lift (getitem llm_response ''llm_id'')) (\<lambda>llm_id.
          bindE (create_retell_agent E llm_id (VStr (voice_or_default (u_voice_id request))))
            (\<lambda>agent_response.
          bindE (lift (getitem agent_response ''agent_id'')) (\<lambda>agent_id.
          returnE (AList.update ''agentId'' agent_id
                     (AList.update ''llmId'' llm_id update_doc)))))))"

text \<open>
  \<^verbatim>\<open>except HTTPException as he: raise he\<close>, then
  \<^verbatim>\<open>except Exception as e: raise HTTPException(status_code=500, detail=label + str(e))\<close>.
\<close>

definition reraise_or_wrap :: "string \<Rightarrow> exn \<Rightarrow> 'a io" where
  "reraise_or_wrap label e =
     (if is_HTTPException e then raise e else raise (HTTPException 500 (label @ str_exn e)))"

text \<open>\<^verbatim>\<open>not existing_sim\<close>: \<^verbatim>\<open>None\<close> and the empty dictionary are false.\<close>

definition not_doc :: "document option \<Rightarrow> bool" where
  "not_doc r = (case r of None \<Rightarrow> True | Some d \<Rightarrow> d = [])"

definition update_simulation :: "env \<Rightarrow> string \<Rightarrow> UpdateSimulationRequest \<Rightarrow> document io" where
  "update_simulation E sim_id request =
     try_except
       (bindE (lift (ObjectId sim_id)) (\<lambda>sim_id_object.
        bindE (find_one E sim_id_object) (\<lambda>existing_sim.
          if not_doc existing_sim
          then raise (HTTPException 404 (''Simulation with id '' @ sim_id @ '' not found''))
          else
            bindE (provision E request (build_update_doc request)) (\<lambda>update_doc.
            bindE (utcnow E) (\<lambda>now.
            let update_doc = AList.update ''lastModified'' now update_doc;
                update_doc = AList.update ''lastModifiedBy'' (u_user_id request) update_doc
            in
            bindE (update_one E sim_id_object update_doc) (\<lambda>modified_count.
              if modified_count = 0
              then raise (HTTPException 500 ''Failed to update simulation'')
              else returnE [(''id'', VStr sim_id), (''status'', VStr ''success'')]))))))
       (reraise_or_wrap ''Error updating simulation: '')"

subsection \<open>start_audio_simulation_preview\<close>

text \<open>
  \<^verbatim>\<open>simulation.get("agentId")\<close>; in the operation itself \<^verbatim>\<open>not simulation\<close> is
  written out: true for \<^verbatim>\<open>None\<close> and for the empty dictionary.
\<close>

definition dict_get :: "document \<Rightarrow> string \<Rightarrow> val" where
  "dict_get d k = (case map_of d k of None \<Rightarrow> VNone | Some v \<Rightarrow> v)"

definition start_audio_simulation_preview :: "env \<Rightarrow> string \<Rightarrow> val \<Rightarrow> document io" where
  "start_audio_simulation_preview E sim_id user_id =
     try_except
       (bindE (lift (ObjectId sim_id)) (\<lambda>sim_id_object.
        bindE (find_one E sim_id_object) (\<lambda>simulation.
          case simulation of
            None \<Rightarrow> raise (HTTPException 404 (''Simulation with id '' @ sim_id @ '' not found''))
          | Some sim \<Rightarrow>
              if sim = []
              then raise (HTTPException 404 (''Simulation with id '' @ sim_id @ '' not found''))
              else
                (let agent_id = dict_get sim ''agentId'' in
                 if \<not> truthy agent_id
                 then raise (HTTPException 400 ''Simulation does not have an agent configured'')
                 else
                   bindE (create_web_call E agent_id) (\<lambda>web_call.
                   bindE (lift (getitem web_call ''access_token'')) (\<lambda>access_token.
                   returnE [(''access_token'', access_token)]))))))
       (reraise_or_wrap ''Error starting audio simulation preview: '')"


section \<open>The transcript, as the specification words it\<close>

text \<open>
  The specification describes the transcript as the lines \<^verbatim>\<open>"<role>: <sentence>"\<close> in
  their original order, joined by newlines: the first line, then each further line after
  a newline. \<open>transcript_spec\<close> follows these words; \<open>conversation_of\<close> above is the
  code.
\<close>

definition rendered_line :: "script_line \<Rightarrow> string" where
  "rendered_line l = role l @ [CHR '':'', CHR '' ''] @ script_sentence l"

definition transcript_spec :: "script_line list \<Rightarrow> string" where
  "transcript_spec script =
     (case script of
        [] \<Rightarrow> []
      | l # ls \<Rightarrow> rendered_line l @ concat (map (\<lambda>x. CHR 0x0A # rendered_line x) ls))"

section \<open>Stored fields and the request fields they come from\<close>

text \<open>
  \<open>request_leaves_out request k\<close>: the stored field \<open>k\<close> is written from a request
  field, by the mapping table or as one of the special objects, and the request leaves
  that field out.
\<close>

definition request_leaves_out :: "UpdateSimulationRequest \<Rightarrow> string \<Rightarrow> bool" where
  "request_leaves_out request k =
     (list_ex (\<lambda>(f, g). g = k \<and> getattr request f = VNone) field_mappings
      \<or> (k = ''script'' \<and> u_script request = None)
      \<or> (k = ''lvl1'' \<and> u_lvl1 request = None)
      \<or> (k = ''lvl2'' \<and> u_lvl2 request = None)
      \<or> (k = ''lvl3'' \<and> u_lvl3 request = None)
      \<or> (k = ''simulationScoringMetrics'' \<and> u_simulation_scoring_metrics request = None)
      \<or> (k = ''simPractice'' \<and> u_sim_practice request = None))"

section \<open>A concrete environment\<close>

text \<open>
  Providers that answer every call with their success status and a well-formed body,
  and providers that answer every call with status 503 and a body that is no JSON; a
  store holding one draft simulation without \<^verbatim>\<open>llmId\<close> and \<^verbatim>\<open>agentId\<close>; the
  requests of the specification's scenarios.
\<close>

definition demo_post :: "http_request \<Rightarrow> exn + http_response" where
  "demo_post r =
     (if url r = ''https://api.openai.com/v1/chat/completions''
      then Inr \<lparr>status = 200, printed = ''<ClientResponse [200 OK]>'',
                json = Inr (VDict [(''choices'', VList [VDict [(''message'',
                         VDict [(''content'', VStr ''Play a customer who wants a refund.'')])]])])\<rparr>
      else if url r = ''https://api.retellai.com/create-retell-llm''
      then Inr \<lparr>status = 201, printed = ''<ClientResponse [201 Created]>'',
                json = Inr (VDict [(''llm_id'', VStr ''llm_1'')])\<rparr>
      else if url r = ''https://api.retellai.com/create-agent''
      then Inr \<lparr>status = 201, printed = ''<ClientResponse [201 Created]>'',
                json = Inr (VDict [(''agent_id'', VStr ''agent_1'')])\<rparr>
      else Inr \<lparr>status = 201, printed = ''<ClientResponse [201 Created]>'',
                json = Inr (VDict [(''access_token'', VStr ''token_1'')])\<rparr>)"

definition new_oid :: "nat list" where
  "new_oid = [101, 240, 192, 255, 238, 1, 35, 69, 103, 137, 171, 206]"

definition demo_env :: env where
  "demo_env = \<lparr>OPENAI_API_KEY = ''openai-key'', RETELL_API_KEY = ''retell-key'',
               post = demo_post, clock = (\<lambda>n. 1000 + n), new_id = (\<lambda>n. new_oid),
               store_fault = (\<lambda>n. None)\<rparr>"

definition down_post :: "http_request \<Rightarrow> exn + http_response" where
  "down_post r =
     Inr \<lparr>status = 503, printed = ''<ClientResponse [503 Service Unavailable]>'',
          json = Inl (OtherError ''Expecting value: line 1 column 1 (char 0)'')\<rparr>"

definition down_env :: env where
  "down_env = demo_env\<lparr>post := down_post\<rparr>"

definition demo_id :: string where
  "demo_id = ''65f0c0ffee0123456789abcd''"

definition demo_oid :: "nat list" where
  "demo_oid = [101, 240, 192, 255, 238, 1, 35, 69, 103, 137, 171, 205]"

definition missing_id :: string where
  "missing_id = ''000000000000000000000000''"

definition missing_oid :: "nat list" where
  "missing_oid = [0, 0, 0, 0, 0, 0, 0, 0, 0, 0, 0, 0]"

definition demo_doc :: document where
  "demo_doc = [(''name'', VStr ''Refund call''), (''status'', VStr ''draft''), (''version'', VInt 1),
               (''createdBy'', VStr ''user_1''), (''createdOn'', VDatetime 900),
               (''lastModifiedBy'', VStr ''user_1''), (''lastModified'', VDatetime 900)]"

definition demo_world :: world where
  "demo_world = \<lparr>simulations = [demo_oid \<mapsto> demo_doc], trace = [], clock_reads = 0\<rparr>"

definition blank_update :: "val \<Rightarrow> UpdateSimulationRequest" where
  "blank_update user =
     \<lparr>u_user_id = user, u_name = VNone, u_division_id = VNone, u_department_id = VNone,
      u_type = VNone, u_tags = VNone, u_status = VNone,
      u_estimated_time_to_attempt_in_mins = VNone, u_key_objectives = VNone,
      u_overview_video = VNone, u_quick_tips = VNone, u_voice_id = None, u_language = VNone,
      u_mood = VNone, u_voice_speed = VNone, u_prompt = None,
      u_simulation_completion_repetition = VNone, u_simulation_max_repetition = VNone,
      u_final_simulation_score_criteria = VNone, u_is_locked = VNone, u_version = VNone,
      u_assistant_id = VNone, u_slides = VNone, u_script = None, u_lvl1 = None, u_lvl2 = None,
      u_lvl3 = None, u_simulation_scoring_metrics = None, u_sim_practice = None\<rparr>"

definition demo_update :: UpdateSimulationRequest where
  "demo_update = (blank_update (VStr ''user_2''))\<lparr>u_prompt := Some ''Be polite and concise.''\<rparr>"

definition empty_voice_update :: UpdateSimulationRequest where
  "empty_voice_update = demo_update\<lparr>u_voice_id := Some []\<rparr>"

definition demo_update_set :: document where
  "demo_update_set =
     [(''prompt'', VStr ''Be polite and concise.''), (''llmId'', VStr ''llm_1''),
      (''agentId'', VStr ''agent_1''), (''lastModified'', VDatetime 1000),
      (''lastModifiedBy'', VStr ''user_2'')]"

definition demo_script :: "script_line list" where
  "demo_script =
     [\<lparr>role = ''agent'', script_sentence = ''Hello, how can I help?'', other_fields = []\<rparr>,
      \<lparr>role = ''customer'', script_sentence = ''I need a refund.'', other_fields = []\<rparr>]"

definition demo_create :: CreateSimulationRequest where
  "demo_create =
     \<lparr>c_name = VStr ''Refund call'', c_division_id = VStr ''div_1'',
      c_department_id = VStr ''dep_1'', c_type = VStr ''audio'', c_script = demo_script,
      c_user_id = VStr ''user_1'', c_tags = VList [VStr ''refund'']\<rparr>"

definition created_doc :: document where
  "created_doc =
     simulation_doc demo_create (VStr ''Play a customer who wants a refund.'')
       (VDatetime 1000) (VDatetime 1001)"

definition created_world :: world where
  "created_world =
     \<lparr>simulations = [demo_oid \<mapsto> demo_doc, new_oid \<mapsto> created_doc],
      trace = [HttpPost (prompt_request demo_env (conversation_of demo_script)),
               InsertOne created_doc],
      clock_reads = 2\<rparr>"

text \<open>
  A record that already has both identifiers, the \<^verbatim>\<open>llmId\<close> being the one the
  providers of \<open>demo_env\<close> return again, and what it is after the update.
\<close>

definition stale_doc :: document where
  "stale_doc = [(''name'', VStr ''Refund call''), (''llmId'', VStr ''llm_1''),
                (''agentId'', VStr ''agent_0''), (''lastModifiedBy'', VStr ''user_1''),
                (''lastModified'', VDatetime 900)]"

definition stale_world :: world where
  "stale_world = \<lparr>simulations = [demo_oid \<mapsto> stale_doc], trace = [], clock_reads = 0\<rparr>"

definition refreshed_doc :: document where
  "refreshed_doc = [(''name'', VStr ''Refund call''), (''llmId'', VStr ''llm_1''),
                    (''agentId'', VStr ''agent_1''), (''lastModifiedBy'', VStr ''user_2''),
                    (''lastModified'', VDatetime 1000),
                    (''prompt'', VStr ''Be polite and concise.'')]"

section \<open>How each operation runs\<close>

lemma lift_bindE: "bindE (lift r) f w = (case r of Inl e \<Rightarrow> (Inl e, w) | Inr x \<Rightarrow> f x w)"
  by (simp add: bindE_def lift_def split: sum.splits)

lemma session_post_run: "session_post E r w = (post E r, w\<lparr>trace := trace w @ [HttpPost r]\<rparr>)"
  by (simp add: session_post_def bindE_def log_def lift_def)

lemma create_retell_llm_run:
  "create_retell_llm E p w =
     ((case post E (llm_request E p) of
         Inl e \<Rightarrow> Inl (HTTPException 500 (''Error creating Retell LLM: '' @ str_exn e))
       | Inr response \<Rightarrow>
           if status response \<noteq> 201
           then Inl (HTTPException 500 (''Error creating Retell LLM: '' @ show_nat (status response)
                                         @ '': Failed to create Retell LLM''))
           else (case json response of
                   Inl e \<Rightarrow> Inl (HTTPException 500 (''Error creating Retell LLM: '' @ str_exn e))
                 | Inr v \<Rightarrow> Inr v)),
      w\<lparr>trace := trace w @ [HttpPost (llm_request E p)]\<rparr>)"
  by (simp add: create_retell_llm_def try_except_def bindE_def session_post_run raise_def lift_def
           split: sum.splits)

lemma create_retell_agent_run:
  "create_retell_agent E l v w =
     ((case post E (agent_request E l v) of
         Inl e \<Rightarrow> Inl (HTTPException 500 (''Error creating Retell Agent: '' @ str_exn e))
       | Inr response \<Rightarrow>
           if status response \<noteq> 201
           then Inl (HTTPException 500 (''Error creating Retell Agent: '' @ show_nat (status response)
                                         @ '': Failed to create Retell Agent''))
           else (case json response of
                   Inl e \<Rightarrow> Inl (HTTPException 500 (''Error creating Retell Agent: '' @ str_exn e))
                 | Inr v \<Rightarrow> Inr v)),
      w\<lparr>trace := trace w @ [HttpPost (agent_request E l v)]\<rparr>)"
  by (simp add: create_retell_agent_def try_except_def bindE_def session_post_run raise_def lift_def
           split: sum.splits)

lemma create_web_call_run:
  "create_web_call E a w =
     (case post E (web_call_request E a) of
        Inl e \<Rightarrow> (Inl (HTTPException 500 (''Error creating web call: '' @ str_exn e)),
                  w\<lparr>trace := trace w @ [HttpPost (web_call_request E a)]\<rparr>)
      | Inr response \<Rightarrow>
          (case json response of
             Inl e \<Rightarrow> (Inl (HTTPException 500 (''Error creating web call: '' @ str_exn e)),
                       w\<lparr>trace := trace w @ [HttpPost (web_call_request E a)]\<rparr>)
           | Inr body \<Rightarrow>
               (if status response \<noteq> 201
                then Inl (HTTPException 500 (''Error creating web call: '' @ show_nat (status response)
                                              @ '': Failed to create web call''))
                else Inr body,
                w\<lparr>trace := trace w @ [HttpPost (web_call_request E a), Print body]\<rparr>)))"
  by (simp add: create_web_call_def try_except_def bindE_def session_post_run raise_def lift_def log_def
           split: sum.splits)

lemma generate_simulation_prompt_trace:
  "snd (generate_simulation_prompt E script w) =
     w\<lparr>trace := trace w @ [HttpPost (prompt_request E (conversation_of script))]\<rparr>"
  by (simp add: generate_simulation_prompt_def try_except_def bindE_def session_post_run raise_def
                lift_def Let_def split: sum.splits)

lemma generate_simulation_prompt_status:
  "post E (prompt_request E (conversation_of script)) = Inr response \<Longrightarrow> status response \<noteq> 200 \<Longrightarrow>
   fst (generate_simulation_prompt E script w) =
     Inl (HTTPException 500 (''Error generating simulation prompt: '' @ show_nat (status response)
                              @ '': '' @ printed response))"
  by (simp add: generate_simulation_prompt_def try_except_def bindE_def session_post_run raise_def
                lift_def Let_def split: sum.splits)

lemma generate_simulation_prompt_error:
  "fst (generate_simulation_prompt E script w) = Inl e \<Longrightarrow> \<exists>m. e = HTTPException 500 m"
  by (auto simp add: generate_simulation_prompt_def try_except_def bindE_def session_post_run raise_def
                lift_def Let_def split: sum.splits if_splits)

lemma store_call_run:
  "store_call E ev w =
     ((case store_fault E (length (trace w)) of Some m \<Rightarrow> Inl (OtherError m) | None \<Rightarrow> Inr ()),
      w\<lparr>trace := trace w @ [ev]\<rparr>)"
  by (simp add: store_call_def split: option.splits)

lemma find_one_run:
  "find_one E oid w =
     (case store_fault E (length (trace w)) of
        Some m \<Rightarrow> (Inl (OtherError m), w\<lparr>trace := trace w @ [FindOne oid]\<rparr>)
      | None \<Rightarrow> (Inr (map_option (\<lambda>d. (''_id'', VObjectId oid) # d) (simulations w oid)),
                 w\<lparr>trace := trace w @ [FindOne oid]\<rparr>))"
  by (simp add: find_one_def bindE_def store_call_run split: option.splits)

lemma update_one_run:
  "update_one E oid upd w =
     (case store_fault E (length (trace w)) of
        Some m \<Rightarrow> (Inl (OtherError m), w\<lparr>trace := trace w @ [UpdateOne oid upd]\<rparr>)
      | None \<Rightarrow>
         (case simulations w oid of
            None \<Rightarrow> (Inr 0, w\<lparr>trace := trace w @ [UpdateOne oid upd]\<rparr>)
          | Some d \<Rightarrow> (Inr (if set_fields upd d = d then 0 else 1),
                       w\<lparr>trace := trace w @ [UpdateOne oid upd],
                         simulations := (simulations w)(oid \<mapsto> set_fields upd d)\<rparr>)))"
  by (simp add: update_one_def bindE_def store_call_run Let_def split: option.splits)

lemma insert_one_run:
  "insert_one E doc w =
     (case store_fault E (length (trace w)) of
        Some m \<Rightarrow> (Inl (OtherError m), w\<lparr>trace := trace w @ [InsertOne doc]\<rparr>)
      | None \<Rightarrow>
         (if simulations w (new_id E (Suc (length (trace w)))) \<noteq> None
          then (Inl (OtherError ''E11000 duplicate key error''), w\<lparr>trace := trace w @ [InsertOne doc]\<rparr>)
          else (Inr (new_id E (Suc (length (trace w)))),
                w\<lparr>trace := trace w @ [InsertOne doc],
                  simulations := (simulations w)(new_id E (Suc (length (trace w))) \<mapsto> doc)\<rparr>)))"
  by (simp add: insert_one_def bindE_def store_call_run Let_def split: option.splits)

lemma provision_None: "u_prompt request = None \<Longrightarrow> provision E request doc w = (Inr doc, w)"
  by (simp add: provision_def returnE_def)

lemma provision_Some:
  "u_prompt request = Some p \<Longrightarrow>
   provision E request doc w =
     (case fst (create_retell_llm E (VStr p) w) of
        Inl e \<Rightarrow> (Inl e, w\<lparr>trace := trace w @ [HttpPost (llm_request E (VStr p))]\<rparr>)
      | Inr llm_response \<Rightarrow>
         (case getitem llm_response ''llm_id'' of
            Inl e \<Rightarrow> (Inl e, w\<lparr>trace := trace w @ [HttpPost (llm_request E (VStr p))]\<rparr>)
          | Inr llm_id \<Rightarrow>
             (let voice = VStr (voice_or_default (u_voice_id request));
                  w2 = w\<lparr>trace := trace w @ [HttpPost (llm_request E (VStr p)),
                                              HttpPost (agent_request E llm_id voice)]\<rparr>
              in case fst (create_retell_agent E llm_id voice w) of
                   Inl e \<Rightarrow> (Inl e, w2)
                 | Inr agent_response \<Rightarrow>
                    (case getitem agent_response ''agent_id'' of
                       Inl e \<Rightarrow> (Inl e, w2)
                     | Inr agent_id \<Rightarrow>
                        (Inr (AList.update ''agentId'' agent_id
                               (AList.update ''llmId'' llm_id doc)), w2)))))"
  by (simp add: provision_def bindE_def lift_def returnE_def create_retell_llm_run
                create_retell_agent_run Let_def split: sum.splits)

lemma update_simulation_found:
  assumes "ObjectId sim_id = Inr oid" and "store_fault E (length (trace w)) = None"
    and "simulations w oid = Some d"
  shows "update_simulation E sim_id request w =
     (case provision E request (build_update_doc request) (w\<lparr>trace := trace w @ [FindOne oid]\<rparr>) of
        (Inl e, w2) \<Rightarrow> reraise_or_wrap ''Error updating simulation: '' e w2
      | (Inr upd0, w2) \<Rightarrow>
         (let upd = AList.update ''lastModifiedBy'' (u_user_id request)
                      (AList.update ''lastModified'' (VDatetime (clock E (clock_reads w2))) upd0);
              w3 = w2\<lparr>clock_reads := Suc (clock_reads w2), trace := trace w2 @ [UpdateOne oid upd]\<rparr>
          in case store_fault E (length (trace w2)) of
               Some m \<Rightarrow> (Inl (HTTPException 500 (''Error updating simulation: '' @ m)), w3)
             | None \<Rightarrow>
                (case simulations w2 oid of
                   None \<Rightarrow> (Inl (HTTPException 500 ''Failed to update simulation''), w3)
                 | Some d2 \<Rightarrow>
                    (if set_fields upd d2 = d2
                     then Inl (HTTPException 500 ''Failed to update simulation'')
                     else Inr [(''id'', VStr sim_id), (''status'', VStr ''success'')],
                     w3\<lparr>simulations := (simulations w2)(oid \<mapsto> set_fields upd d2)\<rparr>))))"
  using assms
  by (auto simp add: update_simulation_def try_except_def bindE_def lift_def find_one_run not_doc_def
                utcnow_def update_one_run reraise_or_wrap_def raise_def returnE_def Let_def
           split: sum.splits prod.splits option.splits)

lemma ObjectId_Inl: "ObjectId s = Inl e \<Longrightarrow> e = InvalidId s"
  by (simp add: ObjectId_def split: if_splits option.splits)

lemma update_simulation_invalid:
  "ObjectId sim_id = Inl e \<Longrightarrow>
   update_simulation E sim_id request w =
     (Inl (HTTPException 500 (''Error updating simulation: '' @ str_exn (InvalidId sim_id))), w)"
  by (frule ObjectId_Inl)
     (simp add: update_simulation_def try_except_def bindE_def lift_def reraise_or_wrap_def raise_def)

lemma preview_invalid:
  "ObjectId sim_id = Inl e \<Longrightarrow>
   start_audio_simulation_preview E sim_id user_id w =
     (Inl (HTTPException 500 (''Error starting audio simulation preview: '' @ str_exn (InvalidId sim_id))), w)"
  by (frule ObjectId_Inl)
     (simp add: start_audio_simulation_preview_def try_except_def bindE_def lift_def
                reraise_or_wrap_def raise_def)

lemma update_simulation_absent:
  assumes "ObjectId sim_id = Inr oid" and "store_fault E (length (trace w)) = None"
    and "simulations w oid = None"
  shows "update_simulation E sim_id request w =
           (Inl (HTTPException 404 (''Simulation with id '' @ sim_id @ '' not found'')),
            w\<lparr>trace := trace w @ [FindOne oid]\<rparr>)"
  using assms
  by (simp add: update_simulation_def try_except_def bindE_def lift_def find_one_run not_doc_def
                reraise_or_wrap_def raise_def)

lemma preview_absent:
  assumes "ObjectId sim_id = Inr oid" and "store_fault E (length (trace w)) = None"
    and "simulations w oid = None"
  shows "start_audio_simulation_preview E sim_id user_id w =
           (Inl (HTTPException 404 (''Simulation with id '' @ sim_id @ '' not found'')),
            w\<lparr>trace := trace w @ [FindOne oid]\<rparr>)"
  using assms
  by (simp add: start_audio_simulation_preview_def try_except_def bindE_def lift_def find_one_run
                reraise_or_wrap_def raise_def)

lemma update_simulation_lookup_fault:
  assumes "ObjectId sim_id = Inr oid" and "store_fault E (length (trace w)) = Some m"
  shows "update_simulation E sim_id request w =
           (Inl (HTTPException 500 (''Error updating simulation: '' @ m)),
            w\<lparr>trace := trace w @ [FindOne oid]\<rparr>)"
  using assms
  by (simp add: update_simulation_def try_except_def bindE_def lift_def find_one_run
                reraise_or_wrap_def raise_def)

lemma preview_lookup_fault:
  assumes "ObjectId sim_id = Inr oid" and "store_fault E (length (trace w)) = Some m"
  shows "start_audio_simulation_preview E sim_id user_id w =
           (Inl (HTTPException 500 (''Error starting audio simulation preview: '' @ m)),
            w\<lparr>trace := trace w @ [FindOne oid]\<rparr>)"
  using assms
  by (simp add: start_audio_simulation_preview_def try_except_def bindE_def lift_def find_one_run
                reraise_or_wrap_def raise_def)

lemma ObjectId_demo_id: "ObjectId demo_id = Inr demo_oid"
  by (simp add: ObjectId_def demo_id_def demo_oid_def hex_val_def is_space_def)

lemma ObjectId_missing_id: "ObjectId missing_id = Inr missing_oid"
  by (simp add: ObjectId_def missing_id_def missing_oid_def hex_val_def is_space_def)

lemma join_Cons: "join sep (x # xs) = x @ concat (map (\<lambda>y. sep @ y) xs)"
  by (induction xs arbitrary: x) simp_all

lemma conversation_of_spec: "conversation_of script = transcript_spec script"
  by (cases script)
     (simp_all add: conversation_of_def transcript_spec_def rendered_line_def join_Cons comp_def)

lemma create_simulation_run:
  "create_simulation E request w =
     (let w1 = w\<lparr>trace := trace w @ [HttpPost (prompt_request E (conversation_of (c_script request)))]\<rparr>
      in case fst (generate_simulation_prompt E (c_script request) w) of
           Inl e \<Rightarrow> (Inl (HTTPException 500 (''Error creating simulation: '' @ str_exn e)), w1)
         | Inr prompt \<Rightarrow>
            (let doc = simulation_doc request prompt (VDatetime (clock E (clock_reads w)))
                         (VDatetime (clock E (Suc (clock_reads w))));
                 w2 = w1\<lparr>clock_reads := Suc (Suc (clock_reads w)), trace := trace w1 @ [InsertOne doc]\<rparr>;
                 oid = new_id E (Suc (length (trace w1)))
             in case store_fault E (length (trace w1)) of
                  Some m \<Rightarrow> (Inl (HTTPException 500 (''Error creating simulation: '' @ m)), w2)
                | None \<Rightarrow>
                   (if simulations w oid \<noteq> None
                    then (Inl (HTTPException 500
                                (''Error creating simulation: '' @ ''E11000 duplicate key error'')), w2)
                    else (Inr [(''id'', VStr (str_ObjectId oid)), (''status'', VStr ''success''),
                               (''prompt'', prompt)],
                          w2\<lparr>simulations := (simulations w)(oid \<mapsto> doc)\<rparr>))))"
proof (cases "generate_simulation_prompt E (c_script request) w")
  case (Pair r w1)
  then have w1: "w1 = w\<lparr>trace := trace w @ [HttpPost (prompt_request E (conversation_of (c_script request)))]\<rparr>"
    using generate_simulation_prompt_trace [of E "c_script request" w] by simp
  show ?thesis
    using Pair
    by (cases r)
       (auto simp add: create_simulation_def try_except_def bindE_def raise_def returnE_def
                  utcnow_def insert_one_run w1 Let_def split: option.splits)
qed

lemma str_new_oid: "str_ObjectId new_oid = ''65f0c0ffee0123456789abce''"
  by code_simp

lemma generate_simulation_prompt_demo:
  "fst (generate_simulation_prompt demo_env demo_script w) =
     Inr (VStr ''Play a customer who wants a refund.'')"
  by (simp add: generate_simulation_prompt_def try_except_def bindE_def
        session_post_run lift_def prompt_request_def demo_env_def demo_post_def Let_def)

lemma create_simulation_demo:
  "create_simulation demo_env demo_create demo_world =
     (Inr [(''id'', VStr ''65f0c0ffee0123456789abce''), (''status'', VStr ''success''),
           (''prompt'', VStr ''Play a customer who wants a refund.'')],
      created_world)"
proof -
  have c: "c_script demo_create = demo_script"
    by (simp add: demo_create_def)
  have e: "store_fault demo_env = (\<lambda>n. None)" "new_id demo_env = (\<lambda>n. new_oid)"
          "clock demo_env = (\<lambda>n. 1000 + n)"
    by (simp_all add: demo_env_def)
  have n: "new_oid \<noteq> demo_oid"
    by (simp add: new_oid_def demo_oid_def)
  show ?thesis
    by (simp add: create_simulation_run c generate_simulation_prompt_demo e str_new_oid Let_def)
       (simp add: demo_world_def created_world_def created_doc_def n)
qed

lemma llm_failure_carries_status:
  "post E (llm_request E p) = Inr response \<Longrightarrow> status response \<noteq> 201 \<Longrightarrow>
   fst (create_retell_llm E p w) =
     Inl (HTTPException 500 (''Error creating Retell LLM: '' @ show_nat (status response)
                              @ '': Failed to create Retell LLM''))"
  by (simp add: create_retell_llm_run)

lemma agent_failure_carries_status:
  "post E (agent_request E l v) = Inr response \<Longrightarrow> status response \<noteq> 201 \<Longrightarrow>
   fst (create_retell_agent E l v w) =
     Inl (HTTPException 500 (''Error creating Retell Agent: '' @ show_nat (status response)
                              @ '': Failed to create Retell Agent''))"
  by (simp add: create_retell_agent_run)

lemma web_call_failure_carries_status_if_decoded:
  "post E (web_call_request E a) = Inr response \<Longrightarrow> status response \<noteq> 201 \<Longrightarrow>
   json response = Inr body \<Longrightarrow>
   fst (create_web_call E a w) =
     Inl (HTTPException 500 (''Error creating web call: '' @ show_nat (status response)
                              @ '': Failed to create web call''))"
  by (simp add: create_web_call_run)

lemma web_call_failure_undecoded:
  "post E (web_call_request E a) = Inr response \<Longrightarrow> json response = Inl e \<Longrightarrow>
   fst (create_web_call E a w) =
     Inl (HTTPException 500 (''Error creating web call: '' @ str_exn e))"
  by (simp add: create_web_call_run)

lemma provision_world:
  "simulations (snd (provision E request doc w)) = simulations w
   \<and> clock_reads (snd (provision E request doc w)) = clock_reads w
   \<and> filter is_store_write (trace (snd (provision E request doc w))) = filter is_store_write (trace w)"
proof (cases "u_prompt request")
  case None
  then show ?thesis by (simp add: provision_None)
next
  case (Some p)
  then show ?thesis
    by (simp add: provision_Some Let_def split: sum.splits)
qed

lemma create_simulation_failure_store:
  "fst (create_simulation E request w) = Inl e \<Longrightarrow>
   simulations (snd (create_simulation E request w)) = simulations w"
  by (auto simp add: create_simulation_run Let_def split: sum.splits option.splits if_splits)

lemma update_simulation_failure_store:
  assumes "fst (update_simulation E sim_id request w) = Inl e"
  shows "simulations (snd (update_simulation E sim_id request w)) = simulations w"
proof (cases "ObjectId sim_id")
  case (Inl x)
  then show ?thesis by (simp add: update_simulation_invalid)
next
  case (Inr oid)
  show ?thesis
  proof (cases "store_fault E (length (trace w))")
    case (Some m)
    with Inr show ?thesis by (simp add: update_simulation_lookup_fault)
  next
    case None
    show ?thesis
    proof (cases "simulations w oid")
      case None
      with Inr \<open>store_fault E (length (trace w)) = None\<close> show ?thesis
        by (simp add: update_simulation_absent)
    next
      case (Some d)
      let ?w1 = "w\<lparr>trace := trace w @ [FindOne oid]\<rparr>"
      obtain r w2 where p: "provision E request (build_update_doc request) ?w1 = (r, w2)"
        by (cases "provision E request (build_update_doc request) ?w1")
      have s2: "simulations w2 = simulations w"
        using provision_world [of E request "build_update_doc request" ?w1] p by simp
      show ?thesis
        using assms Some s2
        by (cases r)
           (auto simp add: update_simulation_found [OF Inr None Some] p reraise_or_wrap_def raise_def
                      Let_def map_upd_triv
                 split: option.splits if_splits)
    qed
  qed
qed

lemma update_simulation_provision_failure:
  assumes "ObjectId sim_id = Inr oid" and "store_fault E (length (trace w)) = None"
    and "simulations w oid = Some d"
    and "fst (provision E request (build_update_doc request) (w\<lparr>trace := trace w @ [FindOne oid]\<rparr>))
           = Inl e"
  shows "(\<exists>e'. fst (update_simulation E sim_id request w) = Inl e')
       \<and> simulations (snd (update_simulation E sim_id request w)) = simulations w
       \<and> filter is_store_write (trace (snd (update_simulation E sim_id request w)))
           = filter is_store_write (trace w)"
proof -
  let ?w1 = "w\<lparr>trace := trace w @ [FindOne oid]\<rparr>"
  obtain w2 where p: "provision E request (build_update_doc request) ?w1 = (Inl e, w2)"
    using assms(4) by (cases "provision E request (build_update_doc request) ?w1") auto
  have "simulations w2 = simulations w"
     and "filter is_store_write (trace w2) = filter is_store_write (trace w)"
    using provision_world [of E request "build_update_doc request" ?w1] p by simp_all
  then show ?thesis
    by (simp add: update_simulation_found [OF assms(1-3)] p reraise_or_wrap_def raise_def)
qed

lemma create_simulation_generation_failure:
  assumes "fst (generate_simulation_prompt E (c_script request) w) = Inl e"
  shows "fst (create_simulation E request w) =
           Inl (HTTPException 500 (''Error creating simulation: '' @ str_exn e))
       \<and> simulations (snd (create_simulation E request w)) = simulations w
       \<and> filter is_store_write (trace (snd (create_simulation E request w)))
           = filter is_store_write (trace w)"
  using assms by (simp add: create_simulation_run Let_def)

lemma show_nat_503: "show_nat 503 = ''503''"
  by code_simp

lemma down_generation:
  "fst (generate_simulation_prompt down_env (c_script demo_create) demo_world) =
     Inl (HTTPException 500
           (''Error generating simulation prompt: '' @ ''503'' @ '': ''
            @ ''<ClientResponse [503 Service Unavailable]>''))"
proof -
  have "post down_env (prompt_request down_env (conversation_of (c_script demo_create))) =
          Inr \<lparr>status = 503, printed = ''<ClientResponse [503 Service Unavailable]>'',
               json = Inl (OtherError ''Expecting value: line 1 column 1 (char 0)'')\<rparr>"
    by (simp add: down_env_def down_post_def)
  from generate_simulation_prompt_status [OF this] show ?thesis
    by (simp add: show_nat_503)
qed

lemma down_provision:
  "fst (provision down_env demo_update doc w) =
     Inl (HTTPException 500
           (''Error creating Retell LLM: '' @ ''503'' @ '': Failed to create Retell LLM''))"
proof -
  have p: "u_prompt demo_update = Some ''Be polite and concise.''"
    by (simp add: demo_update_def)
  have "post down_env (llm_request down_env (VStr ''Be polite and concise.'')) =
          Inr \<lparr>status = 503, printed = ''<ClientResponse [503 Service Unavailable]>'',
               json = Inl (OtherError ''Expecting value: line 1 column 1 (char 0)'')\<rparr>"
    by (simp add: down_env_def down_post_def)
  from llm_failure_carries_status [OF this] show ?thesis
    by (simp add: provision_Some [OF p] show_nat_503)
qed

lemma down_update:
  "fst (update_simulation down_env demo_id demo_update demo_world) =
     Inl (HTTPException 500
           (''Error creating Retell LLM: '' @ ''503'' @ '': Failed to create Retell LLM''))"
proof -
  have f: "store_fault down_env (length (trace demo_world)) = None"
    by (simp add: down_env_def demo_env_def)
  have s: "simulations demo_world demo_oid = Some demo_doc"
    by (simp add: demo_world_def)
  let ?w1 = "demo_world\<lparr>trace := trace demo_world @ [FindOne demo_oid]\<rparr>"
  obtain w2 where "provision down_env demo_update (build_update_doc demo_update) ?w1 =
     (Inl (HTTPException 500
           (''Error creating Retell LLM: '' @ ''503'' @ '': Failed to create Retell LLM'')), w2)"
    using down_provision [of "build_update_doc demo_update" ?w1]
    by (cases "provision down_env demo_update (build_update_doc demo_update) ?w1") auto
  then show ?thesis
    by (simp add: update_simulation_found [OF ObjectId_demo_id f s] reraise_or_wrap_def raise_def)
qed

subsection \<open>Keys of the update set\<close>

lemma map_of_set_fields_absent:
  "map_of upd k = None \<Longrightarrow> map_of (set_fields upd d) k = map_of d k"
  unfolding set_fields_def
  by (induction upd arbitrary: d) (auto simp add: update_conv' split: if_splits)

lemma map_of_set_fields_present:
  "distinct (map fst upd) \<Longrightarrow> map_of upd k = Some v \<Longrightarrow> map_of (set_fields upd d) k = Some v"
proof (induction upd arbitrary: d)
  case Nil
  then show ?case by simp
next
  case (Cons x upd)
  obtain a b where x: "x = (a, b)" by (cases x)
  show ?case
  proof (cases "a = k")
    case True
    with Cons.prems x have "map_of upd k = None" and "v = b"
      by (auto simp add: map_of_eq_None_iff)
    then have "map_of (set_fields upd (AList.update a b d)) k = Some v"
      using True by (simp add: map_of_set_fields_absent update_conv')
    then show ?thesis
      by (simp add: set_fields_def x)
  next
    case False
    with Cons.prems x have "distinct (map fst upd)" and "map_of upd k = Some v"
      by auto
    from Cons.IH [OF this] show ?thesis
      by (simp add: set_fields_def x)
  qed
qed

lemma map_of_add_if_exists:
  "map_of (add_if_exists request f (Some g) acc) k =
     (if getattr request f \<noteq> VNone \<and> k = (if g \<noteq> [] then g else f)
      then Some (getattr request f) else map_of acc k)"
  by (simp add: add_if_exists_def Let_def update_conv')

lemma distinct_add_if_exists:
  "distinct (map fst acc) \<Longrightarrow> distinct (map fst (add_if_exists request f c acc))"
  by (simp add: add_if_exists_def Let_def distinct_update)

lemma map_of_set_if_present:
  "map_of (set_if_present x key f doc) k =
     (case x of None \<Rightarrow> map_of doc k | Some y \<Rightarrow> if k = key then Some (f y) else map_of doc k)"
  by (simp add: set_if_present_def update_conv' split: option.splits)

lemma distinct_set_if_present:
  "distinct (map fst doc) \<Longrightarrow> distinct (map fst (set_if_present x key f doc))"
  by (simp add: set_if_present_def distinct_update split: option.splits)

lemma map_of_fold_add_if_exists_absent:
  "(\<And>f g. (f, g) \<in> set tbl \<Longrightarrow> (if g \<noteq> [] then g else f) = k \<Longrightarrow> getattr request f = VNone) \<Longrightarrow>
   map_of (fold (\<lambda>(f, g). add_if_exists request f (Some g)) tbl acc) k = map_of acc k"
proof (induction tbl arbitrary: acc)
  case Nil
  then show ?case by simp
next
  case (Cons x tbl)
  obtain f g where x: "x = (f, g)" by (cases x)
  have "map_of (add_if_exists request f (Some g) acc) k = map_of acc k"
    using Cons.prems [of f g] x by (auto simp add: map_of_add_if_exists)
  moreover have "map_of (fold (\<lambda>(f, g). add_if_exists request f (Some g)) tbl
                    (add_if_exists request f (Some g) acc)) k =
                 map_of (add_if_exists request f (Some g) acc) k"
    by (rule Cons.IH) (use Cons.prems in auto)
  ultimately show ?case
    by (simp add: x)
qed

lemma distinct_fold_add_if_exists:
  "distinct (map fst acc) \<Longrightarrow>
   distinct (map fst (fold (\<lambda>(f, g). add_if_exists request f (Some g)) tbl acc))"
  by (induction tbl arbitrary: acc) (auto simp add: distinct_add_if_exists)

lemma distinct_build_update_doc: "distinct (map fst (build_update_doc request))"
  by (simp add: build_update_doc_def Let_def distinct_set_if_present distinct_fold_add_if_exists)

lemma field_mappings_doc_field:
  "(f, g) \<in> set field_mappings \<Longrightarrow>
   g \<noteq> [] \<and> g \<noteq> ''script'' \<and> g \<noteq> ''lvl1'' \<and> g \<noteq> ''lvl2'' \<and> g \<noteq> ''lvl3''
   \<and> g \<noteq> ''simulationScoringMetrics'' \<and> g \<noteq> ''simPractice'' \<and> g \<noteq> ''llmId''
   \<and> g \<noteq> ''agentId'' \<and> g \<noteq> ''lastModified'' \<and> g \<noteq> ''lastModifiedBy''
   \<and> g \<noteq> ''createdBy'' \<and> g \<noteq> ''createdOn''"
  by (auto simp add: field_mappings_def)

lemma distinct_snd_unique:
  "distinct (map snd xs) \<Longrightarrow> (a, b) \<in> set xs \<Longrightarrow> (a', b) \<in> set xs \<Longrightarrow> a = a'"
  by (induction xs) (auto simp add: image_iff)

lemma field_mappings_unique:
  "(f, g) \<in> set field_mappings \<Longrightarrow> (f', g) \<in> set field_mappings \<Longrightarrow> f = f'"
proof -
  have "distinct (map snd field_mappings)"
    by (simp add: field_mappings_def)
  then show "(f, g) \<in> set field_mappings \<Longrightarrow> (f', g) \<in> set field_mappings \<Longrightarrow> f = f'"
    by (rule distinct_snd_unique)
qed

lemma map_of_set_if_present_other:
  "k \<noteq> key \<Longrightarrow> map_of (set_if_present x key f doc) k = map_of doc k"
  by (simp add: map_of_set_if_present split: option.splits)

lemma map_of_set_if_present_None:
  "map_of (set_if_present None key f doc) k = map_of doc k"
  by (simp add: map_of_set_if_present)

lemma map_of_build_update_doc_mapped:
  assumes "k \<noteq> ''script''" "k \<noteq> ''lvl1''" "k \<noteq> ''lvl2''" "k \<noteq> ''lvl3''"
        "k \<noteq> ''simulationScoringMetrics''" "k \<noteq> ''simPractice''"
  shows "map_of (build_update_doc request) k =
         map_of (fold (\<lambda>(f, g). add_if_exists request f (Some g)) field_mappings []) k"
  unfolding build_update_doc_def Let_def
  by (simp only: map_of_set_if_present_other [OF assms(1)] map_of_set_if_present_other [OF assms(2)]
        map_of_set_if_present_other [OF assms(3)] map_of_set_if_present_other [OF assms(4)]
        map_of_set_if_present_other [OF assms(5)] map_of_set_if_present_other [OF assms(6)])


lemma map_of_set_if_present_absent:
  "x = None \<or> k \<noteq> key \<Longrightarrow> map_of (set_if_present x key f doc) k = map_of doc k"
  by (auto simp add: map_of_set_if_present split: option.splits)

lemma fold_mappings_other_key:
  assumes "\<And>f. (f, k) \<notin> set field_mappings"
  shows "map_of (fold (\<lambda>(f, g). add_if_exists request f (Some g)) field_mappings []) k = None"
proof -
  have "map_of (fold (\<lambda>(f, g). add_if_exists request f (Some g)) field_mappings []) k = map_of [] k"
  proof (rule map_of_fold_add_if_exists_absent)
    fix f' g'
    assume m: "(f', g') \<in> set field_mappings" and e: "(if g' \<noteq> [] then g' else f') = k"
    from field_mappings_doc_field [OF m] e have "g' = k" by simp
    with m assms show "getattr request f' = VNone" by simp
  qed
  then show ?thesis by simp
qed

lemma fold_mappings_absent:
  assumes "(f, g) \<in> set field_mappings" and "getattr request f = VNone"
  shows "map_of (fold (\<lambda>(f, g). add_if_exists request f (Some g)) field_mappings []) g = None"
proof -
  have "map_of (fold (\<lambda>(f, g). add_if_exists request f (Some g)) field_mappings []) g = map_of [] g"
  proof (rule map_of_fold_add_if_exists_absent)
    fix f' g'
    assume m: "(f', g') \<in> set field_mappings" and e: "(if g' \<noteq> [] then g' else f') = g"
    from field_mappings_doc_field [OF m] e have "g' = g" by simp
    with m assms(1) have "f' = f" using field_mappings_unique [of f' g f] by simp
    with assms(2) show "getattr request f' = VNone" by simp
  qed
  then show ?thesis by simp
qed

lemma build_update_doc_mapped_absent:
  assumes "(f, g) \<in> set field_mappings" and "getattr request f = VNone"
  shows "map_of (build_update_doc request) g = None"
proof -
  have k: "g \<noteq> ''script''" "g \<noteq> ''lvl1''" "g \<noteq> ''lvl2''" "g \<noteq> ''lvl3''"
          "g \<noteq> ''simulationScoringMetrics''" "g \<noteq> ''simPractice''"
    using field_mappings_doc_field [OF assms(1)] by simp_all
  show ?thesis
    by (simp only: map_of_build_update_doc_mapped [OF k] fold_mappings_absent [OF assms])
qed

lemma build_update_doc_other_key:
  assumes "\<And>f. (f, k) \<notin> set field_mappings"
    and "k \<noteq> ''script''" "k \<noteq> ''lvl1''" "k \<noteq> ''lvl2''" "k \<noteq> ''lvl3''"
        "k \<noteq> ''simulationScoringMetrics''" "k \<noteq> ''simPractice''"
  shows "map_of (build_update_doc request) k = None"
  by (simp only: map_of_build_update_doc_mapped [OF assms(2-)] fold_mappings_other_key [OF assms(1)])

lemma special_keys_unmapped:
  "(f, ''script'') \<notin> set field_mappings" "(f, ''lvl1'') \<notin> set field_mappings"
  "(f, ''lvl2'') \<notin> set field_mappings" "(f, ''lvl3'') \<notin> set field_mappings"
  "(f, ''simulationScoringMetrics'') \<notin> set field_mappings"
  "(f, ''simPractice'') \<notin> set field_mappings"
  "(f, ''llmId'') \<notin> set field_mappings" "(f, ''agentId'') \<notin> set field_mappings"
  "(f, ''lastModified'') \<notin> set field_mappings" "(f, ''lastModifiedBy'') \<notin> set field_mappings"
  "(f, ''createdBy'') \<notin> set field_mappings" "(f, ''createdOn'') \<notin> set field_mappings"
  by (simp_all add: field_mappings_def)

lemma build_update_doc_script_absent:
  assumes "u_script request = None"
  shows "map_of (build_update_doc request) ''script'' = None"
proof -
  have "map_of (build_update_doc request) ''script'' =
        map_of (fold (\<lambda>(f, g). add_if_exists request f (Some g)) field_mappings []) ''script''"
    unfolding build_update_doc_def Let_def
    by (simp add: map_of_set_if_present_absent assms)
  then show ?thesis
    by (simp only: fold_mappings_other_key [OF special_keys_unmapped(1)])
qed

lemma build_update_doc_lvl1_absent:
  assumes "u_lvl1 request = None"
  shows "map_of (build_update_doc request) ''lvl1'' = None"
proof -
  have "map_of (build_update_doc request) ''lvl1'' =
        map_of (fold (\<lambda>(f, g). add_if_exists request f (Some g)) field_mappings []) ''lvl1''"
    unfolding build_update_doc_def Let_def
    by (simp add: map_of_set_if_present_absent assms)
  then show ?thesis
    by (simp only: fold_mappings_other_key [OF special_keys_unmapped(2)])
qed

lemma build_update_doc_lvl2_absent:
  assumes "u_lvl2 request = None"
  shows "map_of (build_update_doc request) ''lvl2'' = None"
proof -
  have "map_of (build_update_doc request) ''lvl2'' =
        map_of (fold (\<lambda>(f, g). add_if_exists request f (Some g)) field_mappings []) ''lvl2''"
    unfolding build_update_doc_def Let_def
    by (simp add: map_of_set_if_present_absent assms)
  then show ?thesis
    by (simp only: fold_mappings_other_key [OF special_keys_unmapped(3)])
qed

lemma build_update_doc_lvl3_absent:
  assumes "u_lvl3 request = None"
  shows "map_of (build_update_doc request) ''lvl3'' = None"
proof -
  have "map_of (build_update_doc request) ''lvl3'' =
        map_of (fold (\<lambda>(f, g). add_if_exists request f (Some g)) field_mappings []) ''lvl3''"
    unfolding build_update_doc_def Let_def
    by (simp add: map_of_set_if_present_absent assms)
  then show ?thesis
    by (simp only: fold_mappings_other_key [OF special_keys_unmapped(4)])
qed

lemma build_update_doc_metrics_absent:
  assumes "u_simulation_scoring_metrics request = None"
  shows "map_of (build_update_doc request) ''simulationScoringMetrics'' = None"
proof -
  have "map_of (build_update_doc request) ''simulationScoringMetrics'' =
        map_of (fold (\<lambda>(f, g). add_if_exists request f (Some g)) field_mappings [])
          ''simulationScoringMetrics''"
    unfolding build_update_doc_def Let_def
    by (simp add: map_of_set_if_present_absent assms)
  then show ?thesis
    by (simp only: fold_mappings_other_key [OF special_keys_unmapped(5)])
qed

lemma build_update_doc_practice_absent:
  assumes "u_sim_practice request = None"
  shows "map_of (build_update_doc request) ''simPractice'' = None"
proof -
  have "map_of (build_update_doc request) ''simPractice'' =
        map_of (fold (\<lambda>(f, g). add_if_exists request f (Some g)) field_mappings []) ''simPractice''"
    unfolding build_update_doc_def Let_def
    by (simp add: map_of_set_if_present_absent assms)
  then show ?thesis
    by (simp only: fold_mappings_other_key [OF special_keys_unmapped(6)])
qed

lemma build_update_doc_unstaged:
  "map_of (build_update_doc request) ''llmId'' = None"
  "map_of (build_update_doc request) ''agentId'' = None"
  "map_of (build_update_doc request) ''lastModified'' = None"
  "map_of (build_update_doc request) ''lastModifiedBy'' = None"
  "map_of (build_update_doc request) ''createdBy'' = None"
  "map_of (build_update_doc request) ''createdOn'' = None"
  by (rule build_update_doc_other_key, rule special_keys_unmapped, simp_all)+

text \<open>What a successful provisioning has done.\<close>

lemma provision_success:
  assumes "provision E request doc w1 = (Inr upd0, w2)"
  shows "(u_prompt request = None \<and> upd0 = doc \<and> w2 = w1)
       \<or> (\<exists>p r1 b1 l r2 b2 a.
             u_prompt request = Some p
           \<and> post E (llm_request E (VStr p)) = Inr r1 \<and> status r1 = 201 \<and> json r1 = Inr b1
           \<and> getitem b1 ''llm_id'' = Inr l
           \<and> post E (agent_request E l (VStr (voice_or_default (u_voice_id request)))) = Inr r2
           \<and> status r2 = 201 \<and> json r2 = Inr b2 \<and> getitem b2 ''agent_id'' = Inr a
           \<and> upd0 = AList.update ''agentId'' a (AList.update ''llmId'' l doc)
           \<and> w2 = w1\<lparr>trace := trace w1 @
                   [HttpPost (llm_request E (VStr p)),
                    HttpPost (agent_request E l (VStr (voice_or_default (u_voice_id request))))]\<rparr>)"
proof (cases "u_prompt request")
  case None
  with assms show ?thesis by (simp add: provision_None)
next
  case (Some p)
  with assms show ?thesis
    by (simp add: provision_Some create_retell_llm_run create_retell_agent_run Let_def
             split: sum.splits if_splits)
qed

lemma provision_trace:
  "\<exists>evs. trace (snd (provision E request doc w)) = trace w @ evs
         \<and> (\<forall>ev \<in> set evs. is_provider_call ev)"
proof (cases "u_prompt request")
  case None
  then show ?thesis by (simp add: provision_None)
next
  case (Some p)
  then show ?thesis
    by (simp add: provision_Some Let_def split: sum.splits)
qed

lemma map_of_stamped:
  "map_of (AList.update ''lastModifiedBy'' u (AList.update ''lastModified'' t upd0)) k =
     (if k = ''lastModifiedBy'' then Some u
      else if k = ''lastModified'' then Some t else map_of upd0 k)"
  by (simp add: update_conv')

lemma update_simulation_success:
  assumes "update_simulation E sim_id request w = (Inr r, w')"
  shows "\<exists>oid d upd0 w2.
           ObjectId sim_id = Inr oid \<and> store_fault E (length (trace w)) = None
         \<and> simulations w oid = Some d
         \<and> provision E request (build_update_doc request) (w\<lparr>trace := trace w @ [FindOne oid]\<rparr>)
             = (Inr upd0, w2)
         \<and> simulations w' oid =
             Some (set_fields (AList.update ''lastModifiedBy'' (u_user_id request)
                      (AList.update ''lastModified'' (VDatetime (clock E (clock_reads w))) upd0)) d)
         \<and> trace w' = trace w2 @
             [UpdateOne oid (AList.update ''lastModifiedBy'' (u_user_id request)
                      (AList.update ''lastModified'' (VDatetime (clock E (clock_reads w))) upd0))]
         \<and> r = [(''id'', VStr sim_id), (''status'', VStr ''success'')]"
proof (cases "ObjectId sim_id")
  case (Inl x)
  with assms show ?thesis by (simp add: update_simulation_invalid)
next
  case (Inr oid)
  show ?thesis
  proof (cases "store_fault E (length (trace w))")
    case (Some m)
    with Inr assms show ?thesis by (simp add: update_simulation_lookup_fault)
  next
    case None
    show ?thesis
    proof (cases "simulations w oid")
      case None
      with Inr \<open>store_fault E (length (trace w)) = None\<close> assms show ?thesis
        by (simp add: update_simulation_absent)
    next
      case (Some d)
      let ?w1 = "w\<lparr>trace := trace w @ [FindOne oid]\<rparr>"
      obtain x w2 where p: "provision E request (build_update_doc request) ?w1 = (x, w2)"
        by (cases "provision E request (build_update_doc request) ?w1")
      have s2: "simulations w2 = simulations w" "clock_reads w2 = clock_reads w"
        using provision_world [of E request "build_update_doc request" ?w1] p by simp_all
      show ?thesis
      proof (cases x)
        case (Inl e)
        with assms p show ?thesis
          by (simp add: update_simulation_found [OF Inr None Some] reraise_or_wrap_def raise_def
                   split: if_splits)
      next
        case r: (Inr upd0)
        from assms p r s2 Some have
          "simulations w' oid =
             Some (set_fields (AList.update ''lastModifiedBy'' (u_user_id request)
                      (AList.update ''lastModified'' (VDatetime (clock E (clock_reads w))) upd0)) d)
         \<and> trace w' = trace w2 @
             [UpdateOne oid (AList.update ''lastModifiedBy'' (u_user_id request)
                      (AList.update ''lastModified'' (VDatetime (clock E (clock_reads w))) upd0))]
         \<and> r = [(''id'', VStr sim_id), (''status'', VStr ''success'')]"
          by (auto simp add: update_simulation_found [OF Inr None Some] Let_def
                   split: option.splits if_splits)
        with Inr None Some p r show ?thesis
          by (intro exI [of _ oid] exI [of _ d] exI [of _ upd0] exI [of _ w2]) simp
      qed
    qed
  qed
qed

lemma update_simulation_provisioned:
  assumes "ObjectId sim_id = Inr oid" and "store_fault E (length (trace w)) = None"
    and "simulations w oid = Some d" and "u_prompt request = Some p"
    and "post E (llm_request E (VStr p)) = Inr r1" and "status r1 = 201" and "json r1 = Inr b1"
    and "getitem b1 ''llm_id'' = Inr l"
    and "post E (agent_request E l (VStr (voice_or_default (u_voice_id request)))) = Inr r2"
    and "status r2 = 201" and "json r2 = Inr b2" and "getitem b2 ''agent_id'' = Inr a"
  shows "trace (snd (update_simulation E sim_id request w)) =
           trace w @
           [FindOne oid,
            HttpPost (llm_request E (VStr p)),
            HttpPost (agent_request E l (VStr (voice_or_default (u_voice_id request)))),
            UpdateOne oid
              (AList.update ''lastModifiedBy'' (u_user_id request)
                (AList.update ''lastModified'' (VDatetime (clock E (clock_reads w)))
                  (AList.update ''agentId'' a
                    (AList.update ''llmId'' l (build_update_doc request)))))]"
proof -
  let ?w1 = "w\<lparr>trace := trace w @ [FindOne oid]\<rparr>"
  let ?v = "VStr (voice_or_default (u_voice_id request))"
  have "provision E request (build_update_doc request) ?w1 =
          (Inr (AList.update ''agentId'' a (AList.update ''llmId'' l (build_update_doc request))),
           ?w1\<lparr>trace := trace ?w1 @ [HttpPost (llm_request E (VStr p)),
                                      HttpPost (agent_request E l ?v)]\<rparr>)"
    using assms(5-)
    by (simp add: provision_Some [OF assms(4)] create_retell_llm_run create_retell_agent_run Let_def)
  then show ?thesis
    by (simp add: update_simulation_found [OF assms(1-3)] Let_def split: option.splits)
qed

lemma update_simulation_unprovisioned:
  assumes "ObjectId sim_id = Inr oid" and "store_fault E (length (trace w)) = None"
    and "simulations w oid = Some d" and "u_prompt request = None"
  shows "trace (snd (update_simulation E sim_id request w)) =
           trace w @
           [FindOne oid,
            UpdateOne oid
              (AList.update ''lastModifiedBy'' (u_user_id request)
                (AList.update ''lastModified'' (VDatetime (clock E (clock_reads w)))
                  (build_update_doc request)))]"
  by (simp add: update_simulation_found [OF assms(1-3)] provision_None [OF assms(4)] Let_def
           split: option.splits)

lemma update_simulation_llm_first:
  assumes "ObjectId sim_id = Inr oid" and "store_fault E (length (trace w)) = None"
    and "simulations w oid = Some d" and "u_prompt request = Some p"
  shows "\<exists>rest. trace (snd (update_simulation E sim_id request w)) =
           trace w @ FindOne oid # HttpPost (llm_request E (VStr p)) # rest"
  by (simp add: update_simulation_found [OF assms(1-3)] provision_Some [OF assms(4)] Let_def
                reraise_or_wrap_def raise_def
           split: option.splits sum.splits)

lemma request_leaves_out_unstaged:
  assumes "request_leaves_out request k"
  shows "map_of (build_update_doc request) k = None"
    and "k \<noteq> ''llmId''" and "k \<noteq> ''agentId''"
    and "k \<noteq> ''lastModified''" and "k \<noteq> ''lastModifiedBy''"
proof -
  consider (mapped) f where "(f, k) \<in> set field_mappings" "getattr request f = VNone"
    | (script) "k = ''script''" "u_script request = None"
    | (lvl1) "k = ''lvl1''" "u_lvl1 request = None"
    | (lvl2) "k = ''lvl2''" "u_lvl2 request = None"
    | (lvl3) "k = ''lvl3''" "u_lvl3 request = None"
    | (metrics) "k = ''simulationScoringMetrics''" "u_simulation_scoring_metrics request = None"
    | (practice) "k = ''simPractice''" "u_sim_practice request = None"
    using assms unfolding request_leaves_out_def list_ex_iff by fastforce
  then have "map_of (build_update_doc request) k = None \<and> k \<noteq> ''llmId'' \<and> k \<noteq> ''agentId''
             \<and> k \<noteq> ''lastModified'' \<and> k \<noteq> ''lastModifiedBy''"
  proof cases
    case mapped
    then show ?thesis
      using field_mappings_doc_field [OF mapped(1)] build_update_doc_mapped_absent [OF mapped]
      by simp
  next
    case script
    then show ?thesis by (simp add: build_update_doc_script_absent)
  next
    case lvl1
    then show ?thesis by (simp add: build_update_doc_lvl1_absent)
  next
    case lvl2
    then show ?thesis by (simp add: build_update_doc_lvl2_absent)
  next
    case lvl3
    then show ?thesis by (simp add: build_update_doc_lvl3_absent)
  next
    case metrics
    then show ?thesis by (simp add: build_update_doc_metrics_absent)
  next
    case practice
    then show ?thesis by (simp add: build_update_doc_practice_absent)
  qed
  then show "map_of (build_update_doc request) k = None"
    and "k \<noteq> ''llmId''" and "k \<noteq> ''agentId''"
    and "k \<noteq> ''lastModified''" and "k \<noteq> ''lastModifiedBy''"
    by simp_all
qed

lemma provision_keeps_other_keys:
  assumes "provision E request doc w1 = (Inr upd0, w2)" and "k \<noteq> ''llmId''" and "k \<noteq> ''agentId''"
  shows "map_of upd0 k = map_of doc k"
  using provision_success [OF assms(1)] assms(2,3)
  by (auto simp add: update_conv')

lemma provision_distinct:
  assumes "provision E request doc w1 = (Inr upd0, w2)" and "distinct (map fst doc)"
  shows "distinct (map fst upd0)"
  using provision_success [OF assms(1)] assms(2)
  by (auto simp add: distinct_update)

lemma update_simulation_issued:
  assumes t: "trace (snd (update_simulation E sim_id request w)) = trace w @ evs"
    and u: "UpdateOne i upd \<in> set evs"
  shows "\<exists>upd0 w1 w2.
           provision E request (build_update_doc request) w1 = (Inr upd0, w2)
         \<and> upd = AList.update ''lastModifiedBy'' (u_user_id request)
                   (AList.update ''lastModified'' (VDatetime (clock E (clock_reads w))) upd0)"
proof (cases "ObjectId sim_id")
  case (Inl x)
  with t u show ?thesis by (simp add: update_simulation_invalid)
next
  case (Inr oid)
  show ?thesis
  proof (cases "store_fault E (length (trace w))")
    case (Some m)
    with Inr t u show ?thesis by (auto simp add: update_simulation_lookup_fault)
  next
    case None
    show ?thesis
    proof (cases "simulations w oid")
      case None
      with Inr \<open>store_fault E (length (trace w)) = None\<close> t u show ?thesis
        by (auto simp add: update_simulation_absent)
    next
      case (Some d)
      let ?w1 = "w\<lparr>trace := trace w @ [FindOne oid]\<rparr>"
      obtain x w2 where p: "provision E request (build_update_doc request) ?w1 = (x, w2)"
        by (cases "provision E request (build_update_doc request) ?w1")
      obtain pevs where pe: "trace w2 = trace ?w1 @ pevs" "\<forall>ev \<in> set pevs. is_provider_call ev"
        using provision_trace [of E request "build_update_doc request" ?w1] p by auto
      have c2: "clock_reads w2 = clock_reads w"
        using provision_world [of E request "build_update_doc request" ?w1] p by simp
      show ?thesis
      proof (cases x)
        case (Inl e)
        with t p pe have "evs = FindOne oid # pevs"
          by (simp add: update_simulation_found [OF Inr None Some] reraise_or_wrap_def raise_def
                   split: if_splits)
        with u pe(2) show ?thesis by auto
      next
        case r: (Inr upd0)
        let ?upd = "AList.update ''lastModifiedBy'' (u_user_id request)
                     (AList.update ''lastModified'' (VDatetime (clock E (clock_reads w))) upd0)"
        have "trace (snd (update_simulation E sim_id request w)) = trace w2 @ [UpdateOne oid ?upd]"
          using p r c2
          by (simp add: update_simulation_found [OF Inr None Some] Let_def split: option.splits)
        with t pe have "evs = FindOne oid # pevs @ [UpdateOne oid ?upd]"
          by simp
        with u pe(2) have "upd = ?upd" by auto
        with p r show ?thesis by blast
      qed
    qed
  qed
qed

subsection \<open>Runs in the concrete environment\<close>

lemma demo_llm_post:
  "post demo_env (llm_request demo_env p) =
     Inr \<lparr>status = 201, printed = ''<ClientResponse [201 Created]>'',
          json = Inr (VDict [(''llm_id'', VStr ''llm_1'')])\<rparr>"
  by (simp add: demo_env_def demo_post_def llm_request_def)

lemma demo_agent_post:
  "post demo_env (agent_request demo_env l v) =
     Inr \<lparr>status = 201, printed = ''<ClientResponse [201 Created]>'',
          json = Inr (VDict [(''agent_id'', VStr ''agent_1'')])\<rparr>"
  by (simp add: demo_env_def demo_post_def agent_request_def)

lemma demo_store:
  "store_fault demo_env n = None" "simulations demo_world demo_oid = Some demo_doc"
  "trace demo_world = []" "clock_reads demo_world = 0" "clock demo_env 0 = 1000"
  by (simp_all add: demo_env_def demo_world_def)

lemma demo_update_fields:
  "u_prompt demo_update = Some ''Be polite and concise.''" "u_voice_id demo_update = None"
  "u_user_id demo_update = VStr ''user_2''"
  "u_prompt (blank_update u) = None"
  "u_prompt empty_voice_update = Some ''Be polite and concise.''"
  "u_voice_id empty_voice_update = Some []"
  by (simp_all add: demo_update_def blank_update_def empty_voice_update_def)

lemma demo_update_trace:
  "trace (snd (update_simulation demo_env demo_id demo_update demo_world)) =
     [FindOne demo_oid,
      HttpPost (llm_request demo_env (VStr ''Be polite and concise.'')),
      HttpPost (agent_request demo_env (VStr ''llm_1'') (VStr ''11labs-Adrian'')),
      UpdateOne demo_oid
        (AList.update ''lastModifiedBy'' (VStr ''user_2'')
          (AList.update ''lastModified'' (VDatetime 1000)
            (AList.update ''agentId'' (VStr ''agent_1'')
              (AList.update ''llmId'' (VStr ''llm_1'') (build_update_doc demo_update)))))]"
proof -
  have v: "voice_or_default (u_voice_id demo_update) = ''11labs-Adrian''"
    by (simp add: demo_update_fields voice_or_default_def)
  from update_simulation_provisioned [OF ObjectId_demo_id demo_store(1) demo_store(2)
         demo_update_fields(1) demo_llm_post _ _ _ demo_agent_post, of "VDict [(''llm_id'', VStr ''llm_1'')]"
         "VStr ''llm_1''" "VDict [(''agent_id'', VStr ''agent_1'')]" "VStr ''agent_1''"]
  show ?thesis
    by (simp add: voice_or_default_def demo_store demo_update_fields)
qed

lemma demo_update_succeeds:
  "fst (update_simulation demo_env demo_id demo_update demo_world) =
     Inr [(''id'', VStr demo_id), (''status'', VStr ''success'')]"
proof -
  let ?w1 = "demo_world\<lparr>trace := trace demo_world @ [FindOne demo_oid]\<rparr>"
  let ?staged = "AList.update ''agentId'' (VStr ''agent_1'')
                 (AList.update ''llmId'' (VStr ''llm_1'') (build_update_doc demo_update))"
  let ?upd = "AList.update ''lastModifiedBy'' (u_user_id demo_update)
                (AList.update ''lastModified'' (VDatetime (clock demo_env (clock_reads ?w1))) ?staged)"
  have p: "provision demo_env demo_update (build_update_doc demo_update) ?w1 =
             (Inr ?staged,
              ?w1\<lparr>trace := trace ?w1 @
                 [HttpPost (llm_request demo_env (VStr ''Be polite and concise.'')),
                  HttpPost (agent_request demo_env (VStr ''llm_1'')
                     (VStr (voice_or_default (u_voice_id demo_update))))]\<rparr>)"
    by (simp add: provision_Some [OF demo_update_fields(1)] create_retell_llm_run
          create_retell_agent_run demo_llm_post demo_agent_post Let_def)
  have dist: "distinct (map fst ?upd)"
    by (intro distinct_update distinct_build_update_doc)
  have "map_of (set_fields ?upd demo_doc) ''lastModified'' = Some (VDatetime 1000)"
    by (intro map_of_set_fields_present dist) (simp add: map_of_stamped demo_store)
  moreover have "map_of demo_doc ''lastModified'' = Some (VDatetime 900)"
    by (simp add: demo_doc_def)
  ultimately have ne: "set_fields ?upd demo_doc \<noteq> demo_doc"
    by auto
  show ?thesis
    using ne
    by (simp add: update_simulation_found [OF ObjectId_demo_id demo_store(1) demo_store(2)] p
          demo_store(1,2,4,5) Let_def)
qed

lemma build_update_doc_demo:
  "build_update_doc demo_update = [(''prompt'', VStr ''Be polite and concise.'')]"
  by (simp add: build_update_doc_def field_mappings_def add_if_exists_def getattr_def opt_str_def
        set_if_present_def demo_update_def blank_update_def Let_def)

lemma demo_update_events:
  "trace (snd (update_simulation demo_env demo_id demo_update demo_world)) =
     trace demo_world @
     [FindOne demo_oid,
      HttpPost (llm_request demo_env (VStr ''Be polite and concise.'')),
      HttpPost (agent_request demo_env (VStr ''llm_1'') (VStr ''11labs-Adrian'')),
      UpdateOne demo_oid demo_update_set]"
  by (simp add: demo_update_trace build_update_doc_demo demo_update_set_def demo_store)

lemma demo_update_run:
  "update_simulation demo_env demo_id demo_update demo_world =
     (Inr [(''id'', VStr demo_id), (''status'', VStr ''success'')],
      snd (update_simulation demo_env demo_id demo_update demo_world))"
  using demo_update_succeeds by (simp add: prod_eq_iff)

lemma request_leaves_out_demo: "request_leaves_out demo_update ''name''"
  by (simp add: request_leaves_out_def field_mappings_def getattr_def demo_update_def
        blank_update_def)

lemma stale_update_run:
  "update_simulation demo_env demo_id demo_update stale_world =
     (Inr [(''id'', VStr demo_id), (''status'', VStr ''success'')],
      \<lparr>simulations = [demo_oid \<mapsto> refreshed_doc],
       trace = [FindOne demo_oid,
                HttpPost (llm_request demo_env (VStr ''Be polite and concise.'')),
                HttpPost (agent_request demo_env (VStr ''llm_1'') (VStr ''11labs-Adrian'')),
                UpdateOne demo_oid demo_update_set],
       clock_reads = 1\<rparr>)"
proof -
  have s: "simulations stale_world demo_oid = Some stale_doc"
    by (simp add: stale_world_def)
  let ?w1 = "stale_world\<lparr>trace := trace stale_world @ [FindOne demo_oid]\<rparr>"
  have p: "provision demo_env demo_update (build_update_doc demo_update) ?w1 =
             (Inr [(''prompt'', VStr ''Be polite and concise.''), (''llmId'', VStr ''llm_1''),
                   (''agentId'', VStr ''agent_1'')],
              ?w1\<lparr>trace := trace ?w1 @
                 [HttpPost (llm_request demo_env (VStr ''Be polite and concise.'')),
                  HttpPost (agent_request demo_env (VStr ''llm_1'') (VStr ''11labs-Adrian''))]\<rparr>)"
    by (simp add: provision_Some [OF demo_update_fields(1)] create_retell_llm_run
          create_retell_agent_run demo_llm_post demo_agent_post Let_def build_update_doc_demo
          voice_or_default_def demo_update_fields)
  show ?thesis
    by (simp add: update_simulation_found [OF ObjectId_demo_id demo_store(1) s] p Let_def
          demo_store(1,5))
       (simp add: stale_world_def stale_doc_def refreshed_doc_def demo_update_set_def set_fields_def
          demo_update_fields demo_store(5))
qed

section \<open>The claims\<close>

subsection \<open>Identifiers that are not ObjectIds\<close>

text \<open>
  C10. For every identifier string that \<^verbatim>\<open>ObjectId\<close> does not accept,
  \<^verbatim>\<open>update_simulation\<close> and \<^verbatim>\<open>start_audio_simulation_preview\<close> fail with status 500
  and a message that starts with \<^verbatim>\<open>Error updating simulation:\<close>, respectively
  \<^verbatim>\<open>Error starting audio simulation preview:\<close>: the conversion comes before the
  lookup and its exception reaches the catch-all handler. It is not the 404 of a missing
  record, and nothing has happened in the world.
\<close>

theorem invalid_identifier_generic_failure:
  assumes "\<forall>oid. ObjectId sim_id \<noteq> Inr oid"
  shows "(\<exists>m. update_simulation E sim_id request w =
                (Inl (HTTPException 500 (''Error updating simulation: '' @ m)), w))
       \<and> (\<exists>m. start_audio_simulation_preview E sim_id user_id w =
                (Inl (HTTPException 500 (''Error starting audio simulation preview: '' @ m)), w))"
proof -
  from assms obtain e where "ObjectId sim_id = Inl e"
    by (cases "ObjectId sim_id") auto
  then show ?thesis
    by (simp add: update_simulation_invalid preview_invalid)
qed

text \<open>
  For the string \<^verbatim>\<open>not-an-id\<close> the message after the label is bson's: the string in
  single quotes, then \<^verbatim>\<open>is not a valid ObjectId, ...\<close>.
\<close>

theorem invalid_identifier_generic_failure_witness:
  "ObjectId ''not-an-id'' = Inl (InvalidId ''not-an-id'')
   \<and> py_repr ''not-an-id'' = [CHR 0x27] @ ''not-an-id'' @ [CHR 0x27]
   \<and> (\<exists>m. update_simulation demo_env ''not-an-id'' demo_update demo_world =
             (Inl (HTTPException 500 (''Error updating simulation: '' @ m)), demo_world))
   \<and> (\<exists>m. start_audio_simulation_preview demo_env ''not-an-id'' (VStr ''user_2'') demo_world =
             (Inl (HTTPException 500 (''Error starting audio simulation preview: '' @ m)),
              demo_world))
   \<and> update_simulation demo_env ''not-an-id'' demo_update demo_world =
       (Inl (HTTPException 500
              (''Error updating simulation: '' @ py_repr ''not-an-id'' @
               '' is not a valid ObjectId, it must be a 12-byte input or a 24-character hex string'')),
        demo_world)"
proof -
  have h: "ObjectId ''not-an-id'' = Inl (InvalidId ''not-an-id'')"
    by (simp add: ObjectId_def)
  then have n: "\<forall>oid. ObjectId ''not-an-id'' \<noteq> Inr oid"
    by simp
  have r: "py_repr ''not-an-id'' = [CHR 0x27] @ ''not-an-id'' @ [CHR 0x27]"
    by (simp add: py_repr_def repr_char_def Let_def)
  note T = invalid_identifier_generic_failure [OF n, of demo_env demo_update demo_world
             "VStr ''user_2''"]
  have u: "update_simulation demo_env ''not-an-id'' demo_update demo_world =
       (Inl (HTTPException 500
              (''Error updating simulation: '' @ py_repr ''not-an-id'' @
               '' is not a valid ObjectId, it must be a 12-byte input or a 24-character hex string'')),
        demo_world)"
    using update_simulation_invalid [OF h, of demo_env demo_update demo_world] by simp
  show ?thesis
    using h r T u by (intro conjI) (rule TrueI | assumption | erule conjunct1 | erule conjunct2)+
qed

subsection \<open>Records that do not exist\<close>

text \<open>
  C5, as amended. For every identifier that \<^verbatim>\<open>ObjectId\<close> accepts and whose lookup
  finds no record, \<^verbatim>\<open>update_simulation\<close> and \<^verbatim>\<open>start_audio_simulation_preview\<close>
  fail with status 404 and the message \<^verbatim>\<open>Simulation with id ... not found\<close>, and the
  lookup is the only thing that has happened. For every identifier that resolves to no
  record, whether \<^verbatim>\<open>ObjectId\<close> accepts it or not, both operations fail and no provider
  call is made.
\<close>

theorem missing_record_not_found:
  "(ObjectId sim_id = Inr oid \<longrightarrow> store_fault E (length (trace w)) = None \<longrightarrow>
    simulations w oid = None \<longrightarrow>
      update_simulation E sim_id request w =
        (Inl (HTTPException 404 (''Simulation with id '' @ sim_id @ '' not found'')),
         w\<lparr>trace := trace w @ [FindOne oid]\<rparr>)
    \<and> start_audio_simulation_preview E sim_id user_id w =
        (Inl (HTTPException 404 (''Simulation with id '' @ sim_id @ '' not found'')),
         w\<lparr>trace := trace w @ [FindOne oid]\<rparr>))
   \<and> ((\<forall>i. ObjectId sim_id = Inr i \<longrightarrow> simulations w i = None) \<longrightarrow>
        (\<exists>e. fst (update_simulation E sim_id request w) = Inl e)
      \<and> filter is_provider_call (trace (snd (update_simulation E sim_id request w)))
          = filter is_provider_call (trace w)
      \<and> (\<exists>e. fst (start_audio_simulation_preview E sim_id user_id w) = Inl e)
      \<and> filter is_provider_call (trace (snd (start_audio_simulation_preview E sim_id user_id w)))
          = filter is_provider_call (trace w))"
proof (intro conjI impI)
  assume a: "\<forall>i. ObjectId sim_id = Inr i \<longrightarrow> simulations w i = None"
  consider (bad) e where "ObjectId sim_id = Inl e"
    | (fault) i m where "ObjectId sim_id = Inr i" "store_fault E (length (trace w)) = Some m"
    | (none) i where "ObjectId sim_id = Inr i" "store_fault E (length (trace w)) = None"
        "simulations w i = None"
    using a by (cases "ObjectId sim_id"; cases "store_fault E (length (trace w))") auto
  note cases3 = this
  show "\<exists>e. fst (update_simulation E sim_id request w) = Inl e"
    by (rule cases3)
       (simp_all add: update_simulation_invalid update_simulation_lookup_fault update_simulation_absent)
  show "filter is_provider_call (trace (snd (update_simulation E sim_id request w)))
          = filter is_provider_call (trace w)"
    by (rule cases3)
       (simp_all add: update_simulation_invalid update_simulation_lookup_fault update_simulation_absent)
  show "\<exists>e. fst (start_audio_simulation_preview E sim_id user_id w) = Inl e"
    by (rule cases3) (simp_all add: preview_invalid preview_lookup_fault preview_absent)
  show "filter is_provider_call (trace (snd (start_audio_simulation_preview E sim_id user_id w)))
          = filter is_provider_call (trace w)"
    by (rule cases3) (simp_all add: preview_invalid preview_lookup_fault preview_absent)
qed (simp_all add: update_simulation_absent preview_absent)

theorem missing_record_not_found_witness:
  "ObjectId missing_id = Inr missing_oid
   \<and> store_fault demo_env (length (trace demo_world)) = None
   \<and> simulations demo_world missing_oid = None
   \<and> update_simulation demo_env missing_id demo_update demo_world =
       (Inl (HTTPException 404 (''Simulation with id '' @ missing_id @ '' not found'')),
        demo_world\<lparr>trace := trace demo_world @ [FindOne missing_oid]\<rparr>)
   \<and> start_audio_simulation_preview demo_env missing_id (VStr ''user_2'') demo_world =
       (Inl (HTTPException 404 (''Simulation with id '' @ missing_id @ '' not found'')),
        demo_world\<lparr>trace := trace demo_world @ [FindOne missing_oid]\<rparr>)
   \<and> filter is_provider_call
        (trace (snd (update_simulation demo_env missing_id demo_update demo_world))) =
      filter is_provider_call (trace demo_world)
   \<and> filter is_provider_call
        (trace (snd (start_audio_simulation_preview demo_env missing_id (VStr ''user_2'')
                       demo_world))) =
      filter is_provider_call (trace demo_world)"
proof -
  have h1: "ObjectId missing_id = Inr missing_oid"
    by (rule ObjectId_missing_id)
  have h2: "store_fault demo_env (length (trace demo_world)) = None"
    by (simp add: demo_env_def)
  have h3: "simulations demo_world missing_oid = None"
    by (simp add: demo_world_def missing_oid_def demo_oid_def)
  have h4: "\<forall>i. ObjectId missing_id = Inr i \<longrightarrow> simulations demo_world i = None"
    using h1 h3 by simp
  from missing_record_not_found [of missing_id missing_oid demo_env demo_world demo_update
         "VStr ''user_2''"] h1 h2 h3 h4
  show ?thesis by blast
qed

text \<open>
  The claim as written gives 404 for every identifier that resolves to no record. The
  string \<^verbatim>\<open>abc\<close> resolves to none, and both operations answer 500.
\<close>

theorem missing_record_not_found_counterexample:
  "ObjectId ''abc'' = Inl (InvalidId ''abc'')
   \<and> fst (update_simulation demo_env ''abc'' demo_update demo_world) =
       Inl (HTTPException 500 (''Error updating simulation: '' @ str_exn (InvalidId ''abc'')))
   \<and> fst (start_audio_simulation_preview demo_env ''abc'' (VStr ''user_2'') demo_world) =
       Inl (HTTPException 500
             (''Error starting audio simulation preview: '' @ str_exn (InvalidId ''abc'')))"
proof -
  have h: "ObjectId ''abc'' = Inl (InvalidId ''abc'')"
    by (simp add: ObjectId_def)
  show ?thesis
    using h by (simp add: update_simulation_invalid [OF h] preview_invalid [OF h])
qed

subsection \<open>Preview of a simulation without an agent\<close>

text \<open>
  C6. For every existing record without \<^verbatim>\<open>agentId\<close>,
  \<^verbatim>\<open>start_audio_simulation_preview\<close> fails with status 400 and the message
  \<^verbatim>\<open>Simulation does not have an agent configured\<close>, which is not the 404 of a missing
  record, and the lookup is all that has happened: no provider call.
\<close>

theorem preview_without_agent:
  assumes "ObjectId sim_id = Inr oid" and "store_fault E (length (trace w)) = None"
    and "simulations w oid = Some d" and "map_of d ''agentId'' = None"
  shows "start_audio_simulation_preview E sim_id user_id w =
           (Inl (HTTPException 400 ''Simulation does not have an agent configured''),
            w\<lparr>trace := trace w @ [FindOne oid]\<rparr>)"
  using assms
  by (simp add: start_audio_simulation_preview_def try_except_def bindE_def lift_def find_one_run
                reraise_or_wrap_def raise_def dict_get_def Let_def)

theorem preview_without_agent_witness:
  "ObjectId demo_id = Inr demo_oid
   \<and> store_fault demo_env (length (trace demo_world)) = None
   \<and> simulations demo_world demo_oid = Some demo_doc
   \<and> map_of demo_doc ''agentId'' = None
   \<and> start_audio_simulation_preview demo_env demo_id (VStr ''user_2'') demo_world =
       (Inl (HTTPException 400 ''Simulation does not have an agent configured''),
        demo_world\<lparr>trace := trace demo_world @ [FindOne demo_oid]\<rparr>)"
proof -
  have h1: "ObjectId demo_id = Inr demo_oid"
    by (rule ObjectId_demo_id)
  have h2: "store_fault demo_env (length (trace demo_world)) = None"
    by (simp add: demo_env_def)
  have h3: "simulations demo_world demo_oid = Some demo_doc"
    by (simp add: demo_world_def)
  have h4: "map_of demo_doc ''agentId'' = None"
    by (simp add: demo_doc_def)
  from preview_without_agent [OF h1 h2 h3 h4] h1 h2 h3 h4 show ?thesis
    by blast
qed

subsection \<open>The transcript sent to the text-generation provider\<close>

text \<open>
  C7. For every script (a non-empty one in particular), the one request that
  \<^verbatim>\<open>_generate_simulation_prompt\<close> sends, which is also the first thing
  \<^verbatim>\<open>create_simulation\<close> does, carries as the content of its user message the
  script's lines rendered as \<^verbatim>\<open>"<role>: <sentence>"\<close>, in their original order, joined
  by newlines.
\<close>

theorem transcript_submitted:
  "trace (snd (generate_simulation_prompt E script w)) =
     trace w @ [HttpPost (prompt_request E (transcript_spec script))]
   \<and> (\<exists>rest. trace (snd (create_simulation E request w)) =
        trace w @ HttpPost (prompt_request E (transcript_spec (c_script request))) # rest)
   \<and> getitem (json_body (prompt_request E (transcript_spec script))) ''messages'' =
       Inr (VList [VDict [(''role'', VStr ''system''), (''content'', VStr system_instruction)],
                   VDict [(''role'', VStr ''user''), (''content'', VStr (transcript_spec script))]])"
proof (intro conjI)
  show "trace (snd (generate_simulation_prompt E script w)) =
     trace w @ [HttpPost (prompt_request E (transcript_spec script))]"
    by (simp add: generate_simulation_prompt_trace conversation_of_spec)
  show "\<exists>rest. trace (snd (create_simulation E request w)) =
        trace w @ HttpPost (prompt_request E (transcript_spec (c_script request))) # rest"
    by (simp add: create_simulation_run conversation_of_spec Let_def split: sum.splits option.splits)
  show "getitem (json_body (prompt_request E (transcript_spec script))) ''messages'' =
       Inr (VList [VDict [(''role'', VStr ''system''), (''content'', VStr system_instruction)],
                   VDict [(''role'', VStr ''user''), (''content'', VStr (transcript_spec script))]])"
    by (simp add: prompt_request_def)
qed

text \<open>The specification's scenario: two lines, one newline between them.\<close>

theorem transcript_submitted_witness:
  "trace (snd (generate_simulation_prompt demo_env demo_script demo_world)) =
     [HttpPost (prompt_request demo_env
        (''agent: Hello, how can I help?'' @ [CHR 0x0A] @ ''customer: I need a refund.''))]"
proof -
  have "transcript_spec demo_script =
          ''agent: Hello, how can I help?'' @ [CHR 0x0A] @ ''customer: I need a refund.''"
    by (simp add: transcript_spec_def demo_script_def rendered_line_def)
  with transcript_submitted [of demo_env demo_script demo_world] show ?thesis
    by (simp add: demo_world_def)
qed

subsection \<open>What a successful creation stores and returns\<close>

text \<open>
  C8. For every successful \<^verbatim>\<open>create_simulation\<close>, one document is inserted under an
  identifier that was free; it has status \<^verbatim>\<open>draft\<close>, version 1, \<^verbatim>\<open>createdBy\<close> and
  \<^verbatim>\<open>lastModifiedBy\<close> equal to the requesting user, the generated prompt, and neither
  \<^verbatim>\<open>llmId\<close> nor \<^verbatim>\<open>agentId\<close>; the value returned carries the new identifier, the
  status \<^verbatim>\<open>success\<close> and the generated prompt.
\<close>

theorem create_simulation_success:
  assumes "create_simulation E request w = (Inr r, w')"
  shows "\<exists>prompt oid d.
           fst (generate_simulation_prompt E (c_script request) w) = Inr prompt
         \<and> simulations w oid = None
         \<and> simulations w' = (simulations w)(oid \<mapsto> d)
         \<and> last (trace w') = InsertOne d
         \<and> map_of d ''status'' = Some (VStr ''draft'')
         \<and> map_of d ''version'' = Some (VInt 1)
         \<and> map_of d ''createdBy'' = Some (c_user_id request)
         \<and> map_of d ''lastModifiedBy'' = Some (c_user_id request)
         \<and> map_of d ''prompt'' = Some prompt
         \<and> map_of d ''llmId'' = None
         \<and> map_of d ''agentId'' = None
         \<and> r = [(''id'', VStr (str_ObjectId oid)), (''status'', VStr ''success''),
                 (''prompt'', prompt)]"
  using assms
  by (auto simp add: create_simulation_run simulation_doc_def Let_def
           split: sum.splits option.splits if_splits)

theorem create_simulation_success_witness:
  "create_simulation demo_env demo_create demo_world =
     (Inr [(''id'', VStr ''65f0c0ffee0123456789abce''), (''status'', VStr ''success''),
           (''prompt'', VStr ''Play a customer who wants a refund.'')],
      created_world)
   \<and> (\<exists>prompt oid d.
           fst (generate_simulation_prompt demo_env (c_script demo_create) demo_world) = Inr prompt
         \<and> simulations demo_world oid = None
         \<and> simulations created_world = (simulations demo_world)(oid \<mapsto> d)
         \<and> last (trace created_world) = InsertOne d
         \<and> map_of d ''status'' = Some (VStr ''draft'')
         \<and> map_of d ''version'' = Some (VInt 1)
         \<and> map_of d ''createdBy'' = Some (c_user_id demo_create)
         \<and> map_of d ''lastModifiedBy'' = Some (c_user_id demo_create)
         \<and> map_of d ''prompt'' = Some prompt
         \<and> map_of d ''llmId'' = None
         \<and> map_of d ''agentId'' = None
         \<and> [(''id'', VStr ''65f0c0ffee0123456789abce''), (''status'', VStr ''success''),
             (''prompt'', VStr ''Play a customer who wants a refund.'')] =
            [(''id'', VStr (str_ObjectId oid)), (''status'', VStr ''success''),
             (''prompt'', prompt)])"
  using create_simulation_success [OF create_simulation_demo] create_simulation_demo
  by blast

subsection \<open>Failures leave the store alone\<close>

text \<open>
  C4. When prompt generation fails, \<^verbatim>\<open>create_simulation\<close> fails, issues no store write
  and leaves the collection as it was; every failing \<^verbatim>\<open>create_simulation\<close> leaves the
  collection as it was. When the provisioning of an update fails (the LLM call, the
  agent call, or reading an identifier out of either answer), \<^verbatim>\<open>update_simulation\<close>
  fails, issues no store write and leaves the collection as it was; every failing
  \<^verbatim>\<open>update_simulation\<close> leaves the collection as it was.
\<close>

theorem no_store_write_before_success:
  "(fst (generate_simulation_prompt E (c_script request) w) = Inl e \<longrightarrow>
      fst (create_simulation E request w) =
        Inl (HTTPException 500 (''Error creating simulation: '' @ str_exn e))
    \<and> simulations (snd (create_simulation E request w)) = simulations w
    \<and> filter is_store_write (trace (snd (create_simulation E request w)))
        = filter is_store_write (trace w))
   \<and> (fst (create_simulation E request w) = Inl e1 \<longrightarrow>
        simulations (snd (create_simulation E request w)) = simulations w)
   \<and> (ObjectId sim_id = Inr oid \<longrightarrow> store_fault E (length (trace w)) = None \<longrightarrow>
      simulations w oid = Some d \<longrightarrow>
      fst (provision E update (build_update_doc update) (w\<lparr>trace := trace w @ [FindOne oid]\<rparr>))
        = Inl e2 \<longrightarrow>
        (\<exists>e'. fst (update_simulation E sim_id update w) = Inl e')
      \<and> simulations (snd (update_simulation E sim_id update w)) = simulations w
      \<and> filter is_store_write (trace (snd (update_simulation E sim_id update w)))
          = filter is_store_write (trace w))
   \<and> (fst (update_simulation E sim_id update w) = Inl e3 \<longrightarrow>
        simulations (snd (update_simulation E sim_id update w)) = simulations w)"
  using create_simulation_generation_failure [of E request w e]
        create_simulation_failure_store [of E request w e1]
        update_simulation_provision_failure [of sim_id oid E w d update e2]
        update_simulation_failure_store [of E sim_id update w e3]
  by blast

theorem no_store_write_before_success_witness:
  "fst (generate_simulation_prompt down_env (c_script demo_create) demo_world) =
     Inl (HTTPException 500
           (''Error generating simulation prompt: '' @ ''503'' @ '': ''
            @ ''<ClientResponse [503 Service Unavailable]>''))
   \<and> ObjectId demo_id = Inr demo_oid
   \<and> store_fault down_env (length (trace demo_world)) = None
   \<and> simulations demo_world demo_oid = Some demo_doc
   \<and> fst (provision down_env demo_update (build_update_doc demo_update)
             (demo_world\<lparr>trace := trace demo_world @ [FindOne demo_oid]\<rparr>)) =
       Inl (HTTPException 500
             (''Error creating Retell LLM: '' @ ''503'' @ '': Failed to create Retell LLM''))
   \<and> fst (update_simulation down_env demo_id demo_update demo_world) =
       Inl (HTTPException 500
             (''Error creating Retell LLM: '' @ ''503'' @ '': Failed to create Retell LLM''))
   \<and> fst (create_simulation down_env demo_create demo_world) =
       Inl (HTTPException 500
             (''Error creating simulation: '' @ str_exn (HTTPException 500
                (''Error generating simulation prompt: '' @ ''503'' @ '': ''
                 @ ''<ClientResponse [503 Service Unavailable]>''))))
   \<and> simulations (snd (create_simulation down_env demo_create demo_world)) = simulations demo_world
   \<and> filter is_store_write (trace (snd (create_simulation down_env demo_create demo_world)))
       = filter is_store_write (trace demo_world)
   \<and> simulations (snd (update_simulation down_env demo_id demo_update demo_world))
       = simulations demo_world
   \<and> filter is_store_write (trace (snd (update_simulation down_env demo_id demo_update demo_world)))
       = filter is_store_write (trace demo_world)"
proof -
  have f: "store_fault down_env (length (trace demo_world)) = None"
    by (simp add: down_env_def demo_env_def)
  have s: "simulations demo_world demo_oid = Some demo_doc"
    by (simp add: demo_world_def)
  note g = down_generation
  note p = down_provision [of "build_update_doc demo_update"
             "demo_world\<lparr>trace := trace demo_world @ [FindOne demo_oid]\<rparr>"]
  note u = down_update
  note T = no_store_write_before_success [where E = down_env and request = demo_create
         and w = demo_world and sim_id = demo_id and oid = demo_oid and d = demo_doc
         and update = demo_update]
  note A = T [THEN conjunct1, rule_format, OF g]
  note C = T [THEN conjunct2, THEN conjunct2, THEN conjunct1, rule_format,
              OF ObjectId_demo_id f s p]
  show ?thesis
    using A C g p u f s ObjectId_demo_id by simp
qed

subsection \<open>Provider answers other than the success status\<close>

text \<open>
  C9, at the input where the code departs from it. The web-call provider answers 503
  with a body that does not decode. \<^verbatim>\<open>_create_web_call\<close> reads the body before the
  status, so the failure it raises carries the decoder's message and not the status
  503. (The three other clients look at the status first: see
  \<open>llm_failure_carries_status\<close>, \<open>agent_failure_carries_status\<close> and
  \<open>generate_simulation_prompt_status\<close>; so does the web-call client once the body
  has decoded, \<open>web_call_failure_carries_status_if_decoded\<close>.)
\<close>

theorem web_call_failure_drops_status:
  "post down_env (web_call_request down_env (VStr ''agent_1'')) =
     Inr \<lparr>status = 503, printed = ''<ClientResponse [503 Service Unavailable]>'',
          json = Inl (OtherError ''Expecting value: line 1 column 1 (char 0)'')\<rparr>
   \<and> fst (create_web_call down_env (VStr ''agent_1'') demo_world) =
       Inl (HTTPException 500
             ''Error creating web call: Expecting value: line 1 column 1 (char 0)'')
   \<and> show_nat 503 = ''503''
   \<and> \<not> sublist ''503'' ''Error creating web call: Expecting value: line 1 column 1 (char 0)''"
proof -
  have p: "post down_env (web_call_request down_env (VStr ''agent_1'')) =
     Inr \<lparr>status = 503, printed = ''<ClientResponse [503 Service Unavailable]>'',
          json = Inl (OtherError ''Expecting value: line 1 column 1 (char 0)'')\<rparr>"
    by (simp add: down_env_def down_post_def)
  have s: "show_nat 503 = ''503''"
    by code_simp
  have n: "\<not> sublist ''503'' ''Error creating web call: Expecting value: line 1 column 1 (char 0)''"
    by (simp add: sublist_Cons_right)
  show ?thesis
    using p s n by (simp add: web_call_failure_undecoded [OF p])
qed

subsection \<open>A prompt, and only a prompt, triggers provisioning\<close>

text \<open>
  C1, as amended. For an update of an existing record: when the request has a prompt,
  the first provider call is the creation of an LLM from that prompt; when that call
  and the agent call succeed, the agent is created next, bound to the returned
  \<^verbatim>\<open>llm_id\<close> and to the request's voice identifier when that is a non-empty string,
  and to \<^verbatim>\<open>11labs-Adrian\<close> when the voice identifier is absent or the empty string;
  both returned identifiers are in the update set that is then sent to the store, under
  \<^verbatim>\<open>llmId\<close> and \<^verbatim>\<open>agentId\<close>. When the request has no prompt, the lookup and the
  store update are all that happens, no provider call is made, and the update set has
  neither \<^verbatim>\<open>llmId\<close> nor \<^verbatim>\<open>agentId\<close>.
\<close>

theorem prompt_triggers_provisioning:
  assumes "ObjectId sim_id = Inr oid" and "store_fault E (length (trace w)) = None"
    and "simulations w oid = Some d"
  shows "(u_prompt request = None \<longrightarrow>
            (\<exists>upd. trace (snd (update_simulation E sim_id request w)) =
                      trace w @ [FindOne oid, UpdateOne oid upd]
                  \<and> map_of upd ''llmId'' = None \<and> map_of upd ''agentId'' = None))
       \<and> (u_prompt request = Some p \<longrightarrow>
            (\<exists>rest. trace (snd (update_simulation E sim_id request w)) =
                      trace w @ FindOne oid # HttpPost (llm_request E (VStr p)) # rest))
       \<and> (u_prompt request = Some p \<longrightarrow>
          voice = (case u_voice_id request of
                     None \<Rightarrow> ''11labs-Adrian''
                   | Some v \<Rightarrow> if v = [] then ''11labs-Adrian'' else v) \<longrightarrow>
          post E (llm_request E (VStr p)) = Inr r1 \<longrightarrow> status r1 = 201 \<longrightarrow> json r1 = Inr b1 \<longrightarrow>
          getitem b1 ''llm_id'' = Inr llm_id \<longrightarrow>
          post E (agent_request E llm_id (VStr voice)) = Inr r2 \<longrightarrow> status r2 = 201 \<longrightarrow>
          json r2 = Inr b2 \<longrightarrow> getitem b2 ''agent_id'' = Inr agent_id \<longrightarrow>
            (\<exists>upd. trace (snd (update_simulation E sim_id request w)) =
                      trace w @ [FindOne oid,
                                 HttpPost (llm_request E (VStr p)),
                                 HttpPost (agent_request E llm_id (VStr voice)),
                                 UpdateOne oid upd]
                  \<and> map_of upd ''llmId'' = Some llm_id \<and> map_of upd ''agentId'' = Some agent_id))"
proof (intro conjI impI)
  assume n: "u_prompt request = None"
  show "\<exists>upd. trace (snd (update_simulation E sim_id request w)) =
                      trace w @ [FindOne oid, UpdateOne oid upd]
                  \<and> map_of upd ''llmId'' = None \<and> map_of upd ''agentId'' = None"
    by (intro exI conjI, rule update_simulation_unprovisioned [OF assms n])
       (simp_all add: map_of_stamped build_update_doc_unstaged)
next
  assume "u_prompt request = Some p"
  then show "\<exists>rest. trace (snd (update_simulation E sim_id request w)) =
                      trace w @ FindOne oid # HttpPost (llm_request E (VStr p)) # rest"
    by (rule update_simulation_llm_first [OF assms])
next
  assume s: "u_prompt request = Some p"
    and v: "voice = (case u_voice_id request of
                     None \<Rightarrow> ''11labs-Adrian''
                   | Some v \<Rightarrow> if v = [] then ''11labs-Adrian'' else v)"
    and l: "post E (llm_request E (VStr p)) = Inr r1" "status r1 = 201" "json r1 = Inr b1"
          "getitem b1 ''llm_id'' = Inr llm_id"
    and a: "post E (agent_request E llm_id (VStr voice)) = Inr r2" "status r2 = 201"
          "json r2 = Inr b2" "getitem b2 ''agent_id'' = Inr agent_id"
  have vd: "voice = voice_or_default (u_voice_id request)"
    by (simp add: v voice_or_default_def split: option.splits)
  show "\<exists>upd. trace (snd (update_simulation E sim_id request w)) =
                      trace w @ [FindOne oid,
                                 HttpPost (llm_request E (VStr p)),
                                 HttpPost (agent_request E llm_id (VStr voice)),
                                 UpdateOne oid upd]
                  \<and> map_of upd ''llmId'' = Some llm_id \<and> map_of upd ''agentId'' = Some agent_id"
    unfolding vd
    by (intro exI conjI, rule update_simulation_provisioned [OF assms s l a [unfolded vd]])
       (simp_all add: map_of_stamped update_conv')
qed

text \<open>
  The specification's scenario: the prompt \<^verbatim>\<open>Be polite and concise.\<close> and no voice
  identifier; and a request without a prompt.
\<close>

theorem prompt_triggers_provisioning_witness:
  "ObjectId demo_id = Inr demo_oid
   \<and> store_fault demo_env (length (trace demo_world)) = None
   \<and> simulations demo_world demo_oid = Some demo_doc
   \<and> u_prompt demo_update = Some ''Be polite and concise.''
   \<and> u_voice_id demo_update = None
   \<and> u_prompt (blank_update (VStr ''user_2'')) = None
   \<and> (\<exists>upd. trace (snd (update_simulation demo_env demo_id demo_update demo_world)) =
               trace demo_world @
               [FindOne demo_oid,
                HttpPost (llm_request demo_env (VStr ''Be polite and concise.'')),
                HttpPost (agent_request demo_env (VStr ''llm_1'') (VStr ''11labs-Adrian'')),
                UpdateOne demo_oid upd]
             \<and> map_of upd ''llmId'' = Some (VStr ''llm_1'')
             \<and> map_of upd ''agentId'' = Some (VStr ''agent_1''))
   \<and> (\<exists>upd. trace (snd (update_simulation demo_env demo_id (blank_update (VStr ''user_2''))
                            demo_world)) =
               trace demo_world @ [FindOne demo_oid, UpdateOne demo_oid upd]
             \<and> map_of upd ''llmId'' = None \<and> map_of upd ''agentId'' = None)"
proof -
  note T = prompt_triggers_provisioning [OF ObjectId_demo_id demo_store(1) demo_store(2)]
  have v: "''11labs-Adrian'' =
             (case u_voice_id demo_update of
                None \<Rightarrow> ''11labs-Adrian''
              | Some v \<Rightarrow> if v = [] then ''11labs-Adrian'' else v)"
    by (simp add: demo_update_fields)
  have g1: "getitem (VDict [(''llm_id'', VStr ''llm_1'')]) ''llm_id'' = Inr (VStr ''llm_1'')"
    by simp
  have g2: "getitem (VDict [(''agent_id'', VStr ''agent_1'')]) ''agent_id'' = Inr (VStr ''agent_1'')"
    by simp
  have A: "\<exists>upd. trace (snd (update_simulation demo_env demo_id demo_update demo_world)) =
               trace demo_world @
               [FindOne demo_oid,
                HttpPost (llm_request demo_env (VStr ''Be polite and concise.'')),
                HttpPost (agent_request demo_env (VStr ''llm_1'') (VStr ''11labs-Adrian'')),
                UpdateOne demo_oid upd]
             \<and> map_of upd ''llmId'' = Some (VStr ''llm_1'')
             \<and> map_of upd ''agentId'' = Some (VStr ''agent_1'')"
    by (rule T [THEN conjunct2, THEN conjunct2, rule_format,
                OF demo_update_fields(1) v demo_llm_post _ _ g1 demo_agent_post _ _ g2])
       simp_all
  have B: "\<exists>upd. trace (snd (update_simulation demo_env demo_id (blank_update (VStr ''user_2''))
                            demo_world)) =
               trace demo_world @ [FindOne demo_oid, UpdateOne demo_oid upd]
             \<and> map_of upd ''llmId'' = None \<and> map_of upd ''agentId'' = None"
    by (rule T [THEN conjunct1, rule_format, OF demo_update_fields(4)])
  show ?thesis
    using A B ObjectId_demo_id demo_store(1,2) demo_update_fields(1,2,4) by simp
qed

text \<open>
  The claim as written binds the agent to the request's voice identifier whenever one is
  given. A request that gives the empty string gets the default voice:
  \<^verbatim>\<open>request.voice_id or "11labs-Adrian"\<close> takes the default for every false value.
\<close>

theorem prompt_triggers_provisioning_counterexample:
  "u_prompt empty_voice_update = Some ''Be polite and concise.''
   \<and> u_voice_id empty_voice_update = Some []
   \<and> trace (snd (update_simulation demo_env demo_id empty_voice_update demo_world)) ! 2 =
       HttpPost (agent_request demo_env (VStr ''llm_1'') (VStr ''11labs-Adrian''))
   \<and> agent_request demo_env (VStr ''llm_1'') (VStr ''11labs-Adrian'') \<noteq>
       agent_request demo_env (VStr ''llm_1'') (VStr [])"
proof -
  have v: "voice_or_default (u_voice_id empty_voice_update) = ''11labs-Adrian''"
    by (simp add: demo_update_fields voice_or_default_def)
  from update_simulation_provisioned [OF ObjectId_demo_id demo_store(1) demo_store(2)
         demo_update_fields(5) demo_llm_post _ _ _ demo_agent_post,
         of "VDict [(''llm_id'', VStr ''llm_1'')]"
         "VStr ''llm_1''" "VDict [(''agent_id'', VStr ''agent_1'')]" "VStr ''agent_1''"]
  have "trace (snd (update_simulation demo_env demo_id empty_voice_update demo_world)) ! 2 =
       HttpPost (agent_request demo_env (VStr ''llm_1'') (VStr ''11labs-Adrian''))"
    by (simp add: v demo_store)
  moreover have "agent_request demo_env (VStr ''llm_1'') (VStr ''11labs-Adrian'') \<noteq>
       agent_request demo_env (VStr ''llm_1'') (VStr [])"
    by (simp add: agent_request_def)
  ultimately show ?thesis
    by (simp add: demo_update_fields)
qed

subsection \<open>llmId and agentId are written together\<close>

text \<open>
  C2, as amended. After every successful \<^verbatim>\<open>update_simulation\<close>, either the request
  had no prompt, the update set has neither \<^verbatim>\<open>llmId\<close> nor \<^verbatim>\<open>agentId\<close> and the
  stored record keeps both as they were; or the request had a prompt, and both fields
  are in the update set and in the stored record, holding the identifiers that the LLM
  call and the agent call of this update returned. Never exactly one of the two is
  written, and they are written only for a request with a prompt.
\<close>

theorem llm_and_agent_written_together:
  assumes "update_simulation E sim_id request w = (Inr r, w')"
  shows "\<exists>oid d d' upd.
           ObjectId sim_id = Inr oid \<and> simulations w oid = Some d \<and> simulations w' oid = Some d'
         \<and> last (trace w') = UpdateOne oid upd
         \<and> ((u_prompt request = None
              \<and> map_of upd ''llmId'' = None \<and> map_of upd ''agentId'' = None
              \<and> map_of d' ''llmId'' = map_of d ''llmId''
              \<and> map_of d' ''agentId'' = map_of d ''agentId'')
            \<or> (\<exists>p r1 b1 l r2 b2 a.
                  u_prompt request = Some p
                \<and> post E (llm_request E (VStr p)) = Inr r1 \<and> json r1 = Inr b1
                \<and> getitem b1 ''llm_id'' = Inr l
                \<and> post E (agent_request E l (VStr (voice_or_default (u_voice_id request)))) = Inr r2
                \<and> json r2 = Inr b2 \<and> getitem b2 ''agent_id'' = Inr a
                \<and> map_of upd ''llmId'' = Some l \<and> map_of upd ''agentId'' = Some a
                \<and> map_of d' ''llmId'' = Some l \<and> map_of d' ''agentId'' = Some a))"
proof -
  from update_simulation_success [OF assms] obtain oid d upd0 w2 where
      o: "ObjectId sim_id = Inr oid" and d: "simulations w oid = Some d"
    and p: "provision E request (build_update_doc request) (w\<lparr>trace := trace w @ [FindOne oid]\<rparr>)
             = (Inr upd0, w2)"
    and d': "simulations w' oid =
             Some (set_fields (AList.update ''lastModifiedBy'' (u_user_id request)
                      (AList.update ''lastModified'' (VDatetime (clock E (clock_reads w))) upd0)) d)"
    and t: "trace w' = trace w2 @
             [UpdateOne oid (AList.update ''lastModifiedBy'' (u_user_id request)
                      (AList.update ''lastModified'' (VDatetime (clock E (clock_reads w))) upd0))]"
    by blast
  let ?upd = "AList.update ''lastModifiedBy'' (u_user_id request)
                (AList.update ''lastModified'' (VDatetime (clock E (clock_reads w))) upd0)"
  have dist: "distinct (map fst ?upd)"
    by (intro distinct_update provision_distinct [OF p] distinct_build_update_doc)
  have l: "last (trace w') = UpdateOne oid ?upd"
    by (simp add: t)
  from provision_success [OF p]
  have "(u_prompt request = None
              \<and> map_of ?upd ''llmId'' = None \<and> map_of ?upd ''agentId'' = None
              \<and> map_of (set_fields ?upd d) ''llmId'' = map_of d ''llmId''
              \<and> map_of (set_fields ?upd d) ''agentId'' = map_of d ''agentId'')
            \<or> (\<exists>p r1 b1 l r2 b2 a.
                  u_prompt request = Some p
                \<and> post E (llm_request E (VStr p)) = Inr r1 \<and> json r1 = Inr b1
                \<and> getitem b1 ''llm_id'' = Inr l
                \<and> post E (agent_request E l (VStr (voice_or_default (u_voice_id request)))) = Inr r2
                \<and> json r2 = Inr b2 \<and> getitem b2 ''agent_id'' = Inr a
                \<and> map_of ?upd ''llmId'' = Some l \<and> map_of ?upd ''agentId'' = Some a
                \<and> map_of (set_fields ?upd d) ''llmId'' = Some l
                \<and> map_of (set_fields ?upd d) ''agentId'' = Some a)"
  proof (elim disjE conjE exE)
    assume n: "u_prompt request = None" and u0: "upd0 = build_update_doc request"
    have k: "map_of ?upd ''llmId'' = None" "map_of ?upd ''agentId'' = None"
      by (simp_all add: map_of_stamped u0 build_update_doc_unstaged)
    then show ?thesis
      using n by (simp add: map_of_set_fields_absent)
  next
    fix p r1 b1 l r2 b2 a
    assume s: "u_prompt request = Some p" "post E (llm_request E (VStr p)) = Inr r1"
      "json r1 = Inr b1" "getitem b1 ''llm_id'' = Inr l"
      "post E (agent_request E l (VStr (voice_or_default (u_voice_id request)))) = Inr r2"
      "json r2 = Inr b2" "getitem b2 ''agent_id'' = Inr a"
      and u0: "upd0 = AList.update ''agentId'' a (AList.update ''llmId'' l (build_update_doc request))"
    have k: "map_of ?upd ''llmId'' = Some l" "map_of ?upd ''agentId'' = Some a"
      by (simp_all add: map_of_stamped u0 update_conv')
    have "map_of (set_fields ?upd d) ''llmId'' = Some l"
         "map_of (set_fields ?upd d) ''agentId'' = Some a"
      by (rule map_of_set_fields_present [OF dist k(1)])
         (rule map_of_set_fields_present [OF dist k(2)])
    with k s show ?thesis
      by (intro disjI2 exI [of _ p] exI [of _ r1] exI [of _ b1] exI [of _ l] exI [of _ r2]
                exI [of _ b2] exI [of _ a]) simp
  qed
  with o d d' l show ?thesis
    by (intro exI [of _ oid] exI [of _ d] exI [of _ "set_fields ?upd d"] exI [of _ ?upd]) simp
qed

theorem llm_and_agent_written_together_witness:
  "update_simulation demo_env demo_id demo_update demo_world =
     (Inr [(''id'', VStr demo_id), (''status'', VStr ''success'')],
      snd (update_simulation demo_env demo_id demo_update demo_world))
   \<and> (\<exists>d'. simulations (snd (update_simulation demo_env demo_id demo_update demo_world)) demo_oid
              = Some d'
           \<and> map_of demo_doc ''llmId'' = None \<and> map_of demo_doc ''agentId'' = None
           \<and> map_of d' ''llmId'' = Some (VStr ''llm_1'')
           \<and> map_of d' ''agentId'' = Some (VStr ''agent_1''))"
proof -
  from llm_and_agent_written_together [OF demo_update_run]
  obtain oid d d' upd where o: "ObjectId demo_id = Inr oid"
    and d': "simulations (snd (update_simulation demo_env demo_id demo_update demo_world)) oid
              = Some d'"
    and c: "(u_prompt demo_update = None
              \<and> map_of upd ''llmId'' = None \<and> map_of upd ''agentId'' = None
              \<and> map_of d' ''llmId'' = map_of d ''llmId''
              \<and> map_of d' ''agentId'' = map_of d ''agentId'')
            \<or> (\<exists>p r1 b1 l r2 b2 a.
                  u_prompt demo_update = Some p
                \<and> post demo_env (llm_request demo_env (VStr p)) = Inr r1 \<and> json r1 = Inr b1
                \<and> getitem b1 ''llm_id'' = Inr l
                \<and> post demo_env
                     (agent_request demo_env l (VStr (voice_or_default (u_voice_id demo_update))))
                    = Inr r2
                \<and> json r2 = Inr b2 \<and> getitem b2 ''agent_id'' = Inr a
                \<and> map_of upd ''llmId'' = Some l \<and> map_of upd ''agentId'' = Some a
                \<and> map_of d' ''llmId'' = Some l \<and> map_of d' ''agentId'' = Some a)"
    by blast
  from o have oid: "oid = demo_oid"
    by (simp add: ObjectId_demo_id)
  from c have "map_of d' ''llmId'' = Some (VStr ''llm_1'')
             \<and> map_of d' ''agentId'' = Some (VStr ''agent_1'')"
  proof (elim disjE conjE exE)
    assume "u_prompt demo_update = None"
    then show ?thesis by (simp add: demo_update_fields)
  next
    fix p r1 b1 l r2 b2 a
    assume "post demo_env (llm_request demo_env (VStr p)) = Inr r1" "json r1 = Inr b1"
      "getitem b1 ''llm_id'' = Inr l"
      "post demo_env (agent_request demo_env l (VStr (voice_or_default (u_voice_id demo_update))))
         = Inr r2"
      "json r2 = Inr b2" "getitem b2 ''agent_id'' = Inr a"
      "map_of d' ''llmId'' = Some l" "map_of d' ''agentId'' = Some a"
    then show ?thesis
      by (auto simp add: demo_llm_post demo_agent_post)
  qed
  with d' oid demo_update_run show ?thesis
    by (simp add: demo_doc_def)
qed

text \<open>
  The claim as written says that both fields change or neither does. The update writes
  whatever the providers return and does not look at the stored values: when the
  returned \<^verbatim>\<open>llm_id\<close> is the one already stored and the \<^verbatim>\<open>agent_id\<close> is new, a
  successful update leaves \<^verbatim>\<open>llmId\<close> as it was and changes \<^verbatim>\<open>agentId\<close>.
\<close>

theorem llm_and_agent_written_together_counterexample:
  "simulations stale_world demo_oid = Some stale_doc
   \<and> map_of stale_doc ''llmId'' = Some (VStr ''llm_1'')
   \<and> map_of stale_doc ''agentId'' = Some (VStr ''agent_0'')
   \<and> fst (update_simulation demo_env demo_id demo_update stale_world) =
       Inr [(''id'', VStr demo_id), (''status'', VStr ''success'')]
   \<and> simulations (snd (update_simulation demo_env demo_id demo_update stale_world)) demo_oid =
       Some refreshed_doc
   \<and> map_of refreshed_doc ''llmId'' = Some (VStr ''llm_1'')
   \<and> map_of refreshed_doc ''agentId'' = Some (VStr ''agent_1'')"
  by (simp add: stale_update_run) (simp add: stale_world_def stale_doc_def refreshed_doc_def)

subsection \<open>Fields the request leaves out\<close>

text \<open>
  C3. Every update set that \<^verbatim>\<open>update_simulation\<close> sends to the store has
  \<^verbatim>\<open>lastModified\<close>, the clock reading of this update, and \<^verbatim>\<open>lastModifiedBy\<close>, the
  requesting user; it has neither \<^verbatim>\<open>createdBy\<close> nor \<^verbatim>\<open>createdOn\<close>, and no field
  whose request field is absent. After every successful update, each stored field whose
  request field is absent is as it was, and so are \<^verbatim>\<open>createdBy\<close> and
  \<^verbatim>\<open>createdOn\<close>; \<^verbatim>\<open>lastModified\<close> and \<^verbatim>\<open>lastModifiedBy\<close> hold the new values.
\<close>

theorem absent_fields_left_unchanged:
  "(trace (snd (update_simulation E sim_id request w)) = trace w @ evs \<longrightarrow>
    UpdateOne i upd \<in> set evs \<longrightarrow>
       map_of upd ''lastModified'' = Some (VDatetime (clock E (clock_reads w)))
     \<and> map_of upd ''lastModifiedBy'' = Some (u_user_id request)
     \<and> map_of upd ''createdBy'' = None
     \<and> map_of upd ''createdOn'' = None
     \<and> (request_leaves_out request k \<longrightarrow> map_of upd k = None))
   \<and> (update_simulation E sim_id request w = (Inr r, w') \<longrightarrow>
       (\<exists>oid d d'.
           ObjectId sim_id = Inr oid \<and> simulations w oid = Some d \<and> simulations w' oid = Some d'
         \<and> (request_leaves_out request k \<longrightarrow> map_of d' k = map_of d k)
         \<and> map_of d' ''createdBy'' = map_of d ''createdBy''
         \<and> map_of d' ''createdOn'' = map_of d ''createdOn''
         \<and> map_of d' ''lastModified'' = Some (VDatetime (clock E (clock_reads w)))
         \<and> map_of d' ''lastModifiedBy'' = Some (u_user_id request)))"
proof (intro conjI impI)
  assume "trace (snd (update_simulation E sim_id request w)) = trace w @ evs"
    and "UpdateOne i upd \<in> set evs"
  then obtain upd0 w1 w2 where
      p: "provision E request (build_update_doc request) w1 = (Inr upd0, w2)"
    and upd: "upd = AList.update ''lastModifiedBy'' (u_user_id request)
                   (AList.update ''lastModified'' (VDatetime (clock E (clock_reads w))) upd0)"
    using update_simulation_issued by blast
  show "map_of upd ''lastModified'' = Some (VDatetime (clock E (clock_reads w)))"
    by (simp add: upd map_of_stamped)
  show "map_of upd ''lastModifiedBy'' = Some (u_user_id request)"
    by (simp add: upd map_of_stamped)
  show "map_of upd ''createdBy'' = None"
    by (simp add: upd map_of_stamped provision_keeps_other_keys [OF p] build_update_doc_unstaged)
  show "map_of upd ''createdOn'' = None"
    by (simp add: upd map_of_stamped provision_keeps_other_keys [OF p] build_update_doc_unstaged)
  show "map_of upd k = None" if "request_leaves_out request k"
    using request_leaves_out_unstaged [OF that]
    by (simp add: upd map_of_stamped provision_keeps_other_keys [OF p])
next
  assume "update_simulation E sim_id request w = (Inr r, w')"
  from update_simulation_success [OF this] obtain oid d upd0 w2 where
      o: "ObjectId sim_id = Inr oid" and d: "simulations w oid = Some d"
    and p: "provision E request (build_update_doc request) (w\<lparr>trace := trace w @ [FindOne oid]\<rparr>)
             = (Inr upd0, w2)"
    and d': "simulations w' oid =
             Some (set_fields (AList.update ''lastModifiedBy'' (u_user_id request)
                      (AList.update ''lastModified'' (VDatetime (clock E (clock_reads w))) upd0)) d)"
    by blast
  let ?upd = "AList.update ''lastModifiedBy'' (u_user_id request)
                (AList.update ''lastModified'' (VDatetime (clock E (clock_reads w))) upd0)"
  have dist: "distinct (map fst ?upd)"
    by (intro distinct_update provision_distinct [OF p] distinct_build_update_doc)
  have a: "map_of (set_fields ?upd d) k = map_of d k" if "request_leaves_out request k"
    using request_leaves_out_unstaged [OF that]
    by (intro map_of_set_fields_absent) (simp add: map_of_stamped provision_keeps_other_keys [OF p])
  have b: "map_of (set_fields ?upd d) ''createdBy'' = map_of d ''createdBy''"
    by (intro map_of_set_fields_absent)
       (simp add: map_of_stamped provision_keeps_other_keys [OF p] build_update_doc_unstaged)
  have c: "map_of (set_fields ?upd d) ''createdOn'' = map_of d ''createdOn''"
    by (intro map_of_set_fields_absent)
       (simp add: map_of_stamped provision_keeps_other_keys [OF p] build_update_doc_unstaged)
  have e: "map_of (set_fields ?upd d) ''lastModified'' = Some (VDatetime (clock E (clock_reads w)))"
    by (intro map_of_set_fields_present dist) (simp add: map_of_stamped)
  have f: "map_of (set_fields ?upd d) ''lastModifiedBy'' = Some (u_user_id request)"
    by (intro map_of_set_fields_present dist) (simp add: map_of_stamped)
  show "\<exists>oid d d'.
           ObjectId sim_id = Inr oid \<and> simulations w oid = Some d \<and> simulations w' oid = Some d'
         \<and> (request_leaves_out request k \<longrightarrow> map_of d' k = map_of d k)
         \<and> map_of d' ''createdBy'' = map_of d ''createdBy''
         \<and> map_of d' ''createdOn'' = map_of d ''createdOn''
         \<and> map_of d' ''lastModified'' = Some (VDatetime (clock E (clock_reads w)))
         \<and> map_of d' ''lastModifiedBy'' = Some (u_user_id request)"
    using o d d' a b c e f
    by (intro exI [of _ oid] exI [of _ d] exI [of _ "set_fields ?upd d"]) simp
qed

theorem absent_fields_left_unchanged_witness:
  "trace (snd (update_simulation demo_env demo_id demo_update demo_world)) =
     trace demo_world @
     [FindOne demo_oid,
      HttpPost (llm_request demo_env (VStr ''Be polite and concise.'')),
      HttpPost (agent_request demo_env (VStr ''llm_1'') (VStr ''11labs-Adrian'')),
      UpdateOne demo_oid demo_update_set]
   \<and> request_leaves_out demo_update ''name''
   \<and> map_of demo_update_set ''lastModified'' = Some (VDatetime 1000)
   \<and> map_of demo_update_set ''lastModifiedBy'' = Some (VStr ''user_2'')
   \<and> map_of demo_update_set ''createdBy'' = None
   \<and> map_of demo_update_set ''createdOn'' = None
   \<and> map_of demo_update_set ''name'' = None
   \<and> update_simulation demo_env demo_id demo_update demo_world =
       (Inr [(''id'', VStr demo_id), (''status'', VStr ''success'')],
        snd (update_simulation demo_env demo_id demo_update demo_world))
   \<and> (\<exists>d'. simulations (snd (update_simulation demo_env demo_id demo_update demo_world)) demo_oid
              = Some d'
           \<and> map_of d' ''name'' = Some (VStr ''Refund call'')
           \<and> map_of d' ''createdBy'' = Some (VStr ''user_1'')
           \<and> map_of d' ''createdOn'' = Some (VDatetime 900)
           \<and> map_of d' ''lastModified'' = Some (VDatetime 1000)
           \<and> map_of d' ''lastModifiedBy'' = Some (VStr ''user_2''))"
proof -
  note T = absent_fields_left_unchanged [where E = demo_env and sim_id = demo_id
             and request = demo_update and w = demo_world and k = "''name''"]
  have m: "UpdateOne demo_oid demo_update_set \<in>
             set [FindOne demo_oid,
                  HttpPost (llm_request demo_env (VStr ''Be polite and concise.'')),
                  HttpPost (agent_request demo_env (VStr ''llm_1'') (VStr ''11labs-Adrian'')),
                  UpdateOne demo_oid demo_update_set]"
    by simp
  note A = T [THEN conjunct1, rule_format, OF demo_update_events m]
  from A have A': "map_of demo_update_set ''lastModified'' = Some (VDatetime 1000)
     \<and> map_of demo_update_set ''lastModifiedBy'' = Some (VStr ''user_2'')
     \<and> map_of demo_update_set ''createdBy'' = None
     \<and> map_of demo_update_set ''createdOn'' = None
     \<and> map_of demo_update_set ''name'' = None"
    using request_leaves_out_demo by (simp add: demo_store demo_update_fields)
  from T [THEN conjunct2, rule_format, OF demo_update_run]
  obtain oid d d' where o: "ObjectId demo_id = Inr oid" and d: "simulations demo_world oid = Some d"
    and d': "simulations (snd (update_simulation demo_env demo_id demo_update demo_world)) oid
              = Some d'"
    and k: "request_leaves_out demo_update ''name'' \<longrightarrow> map_of d' ''name'' = map_of d ''name''"
    and r: "map_of d' ''createdBy'' = map_of d ''createdBy''"
           "map_of d' ''createdOn'' = map_of d ''createdOn''"
           "map_of d' ''lastModified'' = Some (VDatetime (clock demo_env (clock_reads demo_world)))"
           "map_of d' ''lastModifiedBy'' = Some (u_user_id demo_update)"
    by blast
  from o have oid: "oid = demo_oid"
    by (simp add: ObjectId_demo_id)
  with d have dd: "d = demo_doc"
    by (simp add: demo_store)
  have B: "\<exists>d'. simulations (snd (update_simulation demo_env demo_id demo_update demo_world)) demo_oid
              = Some d'
           \<and> map_of d' ''name'' = Some (VStr ''Refund call'')
           \<and> map_of d' ''createdBy'' = Some (VStr ''user_1'')
           \<and> map_of d' ''createdOn'' = Some (VDatetime 900)
           \<and> map_of d' ''lastModified'' = Some (VDatetime 1000)
           \<and> map_of d' ''lastModifiedBy'' = Some (VStr ''user_2'')"
    using d' k r request_leaves_out_demo unfolding oid dd
    by (intro exI [of _ d']) (simp add: demo_doc_def demo_store demo_update_fields)
  show ?thesis
    using demo_update_events request_leaves_out_demo A' demo_update_run B
    by (intro conjI) simp_all
qed

end
